theory Spec2Isabelle
  imports Complex_Main "HOL-Library.AList" "HOL-Library.Char_ord" "HOL-Library.List_Lexorder"
begin

section \<open>Data model of the course recommendation engine\<close>

text \<open>
  The model follows \<^verbatim>\<open>ml_models/course_recommendation/model.py\<close>. A pandas data frame is
  the list of its rows, in row order. Python floats are modelled as real numbers, and a
  NaN cell (a missing rating) as \<open>None\<close>. Identifiers are strings, ordered as Python
  orders them (lexicographically by character code).
\<close>

datatype py_error = ValueError | IndexError | TypeError

record history_row =
  hist_student_id :: string
  hist_course_id :: string
  student_rating :: "real option"
  grade_value :: real

subsection \<open>Interaction matrix builder\<close>

text \<open>
  \<^verbatim>\<open>_create_student_course_matrix\<close>: the implied rating is
  \<^verbatim>\<open>grade_value / max_grade * 5\<close> with \<^verbatim>\<open>max_grade = 4.0\<close>; \<^verbatim>\<open>np.where\<close> takes the
  student's rating where it is not NaN and the implied rating elsewhere.
\<close>

definition max_grade :: real where
  "max_grade = 4"

definition implied_rating :: "history_row \<Rightarrow> real" where
  "implied_rating r = grade_value r / max_grade * 5"

definition interaction_value :: "history_row \<Rightarrow> real" where
  "interaction_value r =
     (case student_rating r of Some x \<Rightarrow> x | None \<Rightarrow> implied_rating r)"

text \<open>
  \<^verbatim>\<open>pivot_table(index='student_id', columns='course_id', values='interaction_value',
  fill_value=0)\<close>: pandas groups the rows by (student, course), aggregates each group with
  its default \<^verbatim>\<open>aggfunc='mean'\<close>, sorts the row and column labels, and fills the cells
  of empty groups with 0.
\<close>

record interaction_matrix =
  m_index :: "string list"
  m_columns :: "string list"
  m_cell :: "string \<Rightarrow> string \<Rightarrow> real"

definition group_values :: "history_row list \<Rightarrow> string \<Rightarrow> string \<Rightarrow> real list" where
  "group_values h s c =
     map interaction_value
       (filter (\<lambda>r. hist_student_id r = s \<and> hist_course_id r = c) h)"

definition mean :: "real list \<Rightarrow> real" where
  "mean xs = sum_list xs / real (length xs)"

definition pivot_cell :: "history_row list \<Rightarrow> string \<Rightarrow> string \<Rightarrow> real" where
  "pivot_cell h s c = (let vs = group_values h s c in if vs = [] then 0 else mean vs)"

definition pivot_table :: "history_row list \<Rightarrow> interaction_matrix" where
  "pivot_table h =
     \<lparr> m_index = sort (remdups (map hist_student_id h)),
       m_columns = sort (remdups (map hist_course_id h)),
       m_cell = pivot_cell h \<rparr>"

definition create_student_course_matrix :: "history_row list \<Rightarrow> interaction_matrix" where
  "create_student_course_matrix h = pivot_table h"

text \<open>
  \<^verbatim>\<open>matrix.loc[s]\<close> is the row labelled \<open>s\<close>, a series over the column labels; the
  program reads it only for a label of the index. \<open>matrix_cell\<close> reads one cell by its
  two labels, and is \<open>None\<close> where pandas raises a KeyError.
\<close>

definition loc :: "interaction_matrix \<Rightarrow> string \<Rightarrow> real list" where
  "loc m s = map (m_cell m s) (m_columns m)"

definition matrix_cell :: "interaction_matrix \<Rightarrow> string \<Rightarrow> string \<Rightarrow> real option" where
  "matrix_cell m s c =
     (if s \<in> set (m_index m) \<and> c \<in> set (m_columns m) then Some (m_cell m s c) else None)"

subsection \<open>Tables\<close>

text \<open>
  The columns of the three tables, as \<^verbatim>\<open>load_data\<close> leaves them (the JSON list columns
  parsed). A course row of the trained model also carries the columns that
  \<^verbatim>\<open>_calculate_course_popularity\<close> adds; \<open>avg_rating\<close> is \<open>None\<close> where the cell is NaN.
\<close>

record course_row =
  course_id :: string
  course_code :: string
  course_name :: string
  department :: string
  description :: string
  prerequisites :: "string list"
  level :: int
  difficulty :: string
  credits :: int
  course_keywords :: "string list"

record trained_course = course_row +
  enrollment_count :: real
  avg_rating :: "real option"
  popularity_score :: real

record student_row =
  student_id :: string
  major :: string
  student_department :: string
  year_of_study :: int
  gpa :: real
  topic_interests :: "string list"

subsection \<open>Python and pandas helpers\<close>

text \<open>\<^verbatim>\<open>frame[mask].iloc[0]\<close>: the first selected row; IndexError when none is selected.\<close>

definition iloc0 :: "'a list \<Rightarrow> py_error + 'a" where
  "iloc0 xs = (case xs of [] \<Rightarrow> Inl IndexError | x # _ \<Rightarrow> Inr x)"

text \<open>\<^verbatim>\<open>xs[:n]\<close>: a negative bound counts from the end of the list.\<close>

definition py_slice :: "int \<Rightarrow> 'a list \<Rightarrow> 'a list" where
  "py_slice n xs = (if 0 \<le> n then take (nat n) xs else take (length xs - nat (- n)) xs)"

text \<open>
  \<^verbatim>\<open>sorted(pairs, key=lambda x: x[1], reverse=True)\<close>: descending by score, and stable
  (pairs of equal score keep their order).
\<close>

definition sorted_desc :: "('a \<times> real) list \<Rightarrow> ('a \<times> real) list" where
  "sorted_desc ps = sort_key (\<lambda>p. - snd p) ps"

text \<open>\<^verbatim>\<open>series.unique()\<close>: the distinct values in order of first appearance.\<close>

definition unique :: "'a list \<Rightarrow> 'a list" where
  "unique xs = rev (remdups (rev xs))"

text \<open>\<^verbatim>\<open>' '.join(words)\<close>.\<close>

fun join_space :: "string list \<Rightarrow> string" where
  "join_space [] = []"
| "join_space [w] = w"
| "join_space (w # ws) = w @ '' '' @ join_space ws"

text \<open>
  Python's \<^verbatim>\<open>round(x)\<close> with one argument rounds to the nearest integer, and a tie to
  the even neighbour.
\<close>

definition py_round :: "real \<Rightarrow> int" where
  "py_round x =
     (let f = \<lfloor>x\<rfloor>; d = x - of_int f
      in if d < 1 / 2 then f else if 1 / 2 < d then f + 1 else if even f then f else f + 1)"

subsection \<open>Cosine similarity\<close>

text \<open>
  \<^verbatim>\<open>sklearn.metrics.pairwise.cosine_similarity(X, Y)\<close> scales every row of \<open>X\<close> and of
  \<open>Y\<close> to unit Euclidean length (a zero row is left as it is) and returns the matrix of
  the dot products of the scaled rows; with one argument, \<open>Y\<close> is \<open>X\<close>. Both arguments
  have rows of one common width wherever the program calls it. The definition gives the
  exact values; the program computes them in 64-bit floating point, so its results agree
  with these up to rounding only.
\<close>

definition dot :: "real list \<Rightarrow> real list \<Rightarrow> real" where
  "dot xs ys = sum_list (map2 (*) xs ys)"

definition l2_norm :: "real list \<Rightarrow> real" where
  "l2_norm xs = sqrt (dot xs xs)"

definition normalize_row :: "real list \<Rightarrow> real list" where
  "normalize_row xs = (let n = l2_norm xs in if n = 0 then xs else map (\<lambda>v. v / n) xs)"

definition cosine_similarity :: "real list list \<Rightarrow> real list list \<Rightarrow> real list list" where
  "cosine_similarity X Y =
     map (\<lambda>x. map (\<lambda>y. dot (normalize_row x) (normalize_row y)) Y) X"

subsection \<open>The recommender object\<close>

text \<open>
  What the program takes from outside its own code: the fitted TF-IDF vectorizer as a
  function of the corpus (\<^verbatim>\<open>TfidfVectorizer(...).fit(corpus).transform\<close>, text to weight
  vector), the seeded \<^verbatim>\<open>np.random.choice\<close>, and the iteration order of a Python set.
\<close>

record env =
  tfidf :: "string list \<Rightarrow> string \<Rightarrow> real list"
  random_choice :: "string list \<Rightarrow> nat \<Rightarrow> string list"
  set_to_list :: "string set \<Rightarrow> string list"

text \<open>
  The attributes of \<^verbatim>\<open>CourseRecommendationSystem\<close> that the recommender and the evaluator
  read. The similarity matrix is \<open>None\<close> until the features have been built; the other
  model components are set by the same \<^verbatim>\<open>preprocess_data\<close> call.
\<close>

record model =
  courses_df :: "trained_course list"
  students_df :: "student_row list"
  course_history_df :: "history_row list"
  course_vectorizer :: "string \<Rightarrow> real list"
  course_content_matrix :: "real list list"
  course_similarity_matrix :: "real list list option"
  student_course_matrix :: interaction_matrix

subsection \<open>Content similarity index\<close>

definition content_text :: "'a course_row_scheme \<Rightarrow> string" where
  "content_text row =
     course_name row @ '' '' @ department row @ '' '' @ description row @ '' '' @
     join_space (course_keywords row) @ '' '' @ difficulty row @ '' level course''"

definition create_course_content_features ::
  "env \<Rightarrow> 'a course_row_scheme list \<Rightarrow> (string \<Rightarrow> real list) \<times> real list list \<times> real list list"
where
  "create_course_content_features e courses =
     (let texts = map content_text courses;
          vectorizer = tfidf e texts;
          content_matrix = map vectorizer texts
      in (vectorizer, content_matrix, cosine_similarity content_matrix content_matrix))"

text \<open>
  \<^verbatim>\<open>preprocess_data\<close> on loaded tables. Its third step, \<^verbatim>\<open>_create_student_features\<close>,
  fills \<^verbatim>\<open>student_embeddings\<close>, which no other method reads, and is left out.
\<close>

definition preprocess_data :: "env \<Rightarrow> model \<Rightarrow> model" where
  "preprocess_data e st =
     (case create_course_content_features e (courses_df st) of
        (vectorizer, content_matrix, similarity) \<Rightarrow>
          st \<lparr> course_vectorizer := vectorizer,
               course_content_matrix := content_matrix,
               course_similarity_matrix := Some similarity,
               student_course_matrix := create_student_course_matrix (course_history_df st) \<rparr>)"

subsection \<open>Course popularity\<close>

text \<open>
  \<^verbatim>\<open>_calculate_course_popularity\<close>. The enrollment count of a course is its number of
  history rows (0 after \<^verbatim>\<open>fillna\<close> when it has none). The average rating is the mean of
  the non-NaN ratings of the course; the left merge leaves NaN for a course without one,
  and \<^verbatim>\<open>fillna(0)\<close> replaces it by 0. When the courses table read from CSV has an
  \<^verbatim>\<open>avg_rating\<close> column of its own, the merge renames both columns with suffixes, no column
  \<^verbatim>\<open>avg_rating\<close> is left, and the method sets the column to 0 for every course.
\<close>

definition course_ratings :: "history_row list \<Rightarrow> string \<Rightarrow> real list" where
  "course_ratings h c =
     concat (map (\<lambda>r. case student_rating r of None \<Rightarrow> [] | Some x \<Rightarrow> [x])
               (filter (\<lambda>r. hist_course_id r = c) h))"

definition merged_avg_rating :: "history_row list \<Rightarrow> string \<Rightarrow> real option" where
  "merged_avg_rating h c =
     (let rs = course_ratings h c in if rs = [] then None else Some (mean rs))"

definition fillna0 :: "real option \<Rightarrow> real option" where
  "fillna0 v = (case v of None \<Rightarrow> Some 0 | Some x \<Rightarrow> Some x)"

definition enrollments :: "history_row list \<Rightarrow> string \<Rightarrow> real" where
  "enrollments h c = real (length (filter (\<lambda>r. hist_course_id r = c) h))"

definition rating_max :: real where
  "rating_max = 5"

definition calculate_course_popularity ::
  "bool \<Rightarrow> history_row list \<Rightarrow> course_row list \<Rightarrow> trained_course list"
where
  "calculate_course_popularity csv_has_avg_rating h courses =
     (let enrollment_max = max (Max (set (map (\<lambda>c. enrollments h (course_id c)) courses))) 1
      in map (\<lambda>c.
           let n = enrollments h (course_id c);
               r = (if csv_has_avg_rating then Some 0
                    else fillna0 (merged_avg_rating h (course_id c)))
           in course_row.extend c
                \<lparr> enrollment_count = n, avg_rating = r,
                  popularity_score =
                    0.7 * n / enrollment_max
                    + 0.3 * (case r of None \<Rightarrow> 0 | Some x \<Rightarrow> x) / rating_max \<rparr>)
         courses)"

subsection \<open>Content-based recommender\<close>

text \<open>
  \<^verbatim>\<open>similarity_scores += 0.5 * course_similarities\<close> on numpy vectors: the lengths must
  agree, except that a vector of one element is broadcast. The row is read from the
  similarity matrix only for a taken course that is in the courses table; reading it from
  an object whose matrix is still \<^verbatim>\<open>None\<close> is a TypeError.
\<close>

definition add_half :: "real list \<Rightarrow> real list \<Rightarrow> py_error + real list" where
  "add_half scores row =
     (if length row = length scores then Inr (map2 (\<lambda>a b. a + 0.5 * b) scores row)
      else if length row = 1 then Inr (map (\<lambda>a. a + 0.5 * hd row) scores)
      else Inl ValueError)"

fun first_index :: "('a \<Rightarrow> bool) \<Rightarrow> 'a list \<Rightarrow> nat option" where
  "first_index P [] = None"
| "first_index P (x # xs) =
     (if P x then Some 0 else map_option Suc (first_index P xs))"

definition student_courses_of :: "history_row list \<Rightarrow> string \<Rightarrow> string list" where
  "student_courses_of h sid = map hist_course_id (filter (\<lambda>r. hist_student_id r = sid) h)"

fun add_taken_similarities ::
  "model \<Rightarrow> string list \<Rightarrow> real list \<Rightarrow> py_error + real list"
where
  "add_taken_similarities st [] scores = Inr scores"
| "add_taken_similarities st (cid # rest) scores =
     (case first_index (\<lambda>c. course_id c = cid) (courses_df st) of
        None \<Rightarrow> add_taken_similarities st rest scores
      | Some course_idx \<Rightarrow>
          (case course_similarity_matrix st of
             None \<Rightarrow> Inl TypeError
           | Some sim \<Rightarrow>
               if length sim \<le> course_idx then Inl IndexError
               else (case add_half scores (sim ! course_idx) of
                       Inl err \<Rightarrow> Inl err
                     | Inr scores' \<Rightarrow> add_taken_similarities st rest scores')))"

definition query_text :: "string list \<Rightarrow> string \<Rightarrow> string" where
  "query_text interests dept =
     (if interests = [] then dept else join_space interests @ '' '' @ dept)"

definition get_content_based_recommendations ::
  "model \<Rightarrow> string \<Rightarrow> string list \<Rightarrow> string \<Rightarrow> int \<Rightarrow> py_error + (string \<times> real) list"
where
  "get_content_based_recommendations st sid interests dept limit =
     (let query_vector = [course_vectorizer st (query_text interests dept)];
          similarity_scores = hd (cosine_similarity query_vector (course_content_matrix st));
          student_courses = unique (student_courses_of (course_history_df st) sid)
      in case add_taken_similarities st student_courses similarity_scores of
           Inl err \<Rightarrow> Inl err
         | Inr scores \<Rightarrow>
             if length scores < length (courses_df st) then Inl IndexError
             else Inr (py_slice limit
                    (sorted_desc (zip (map course_id (courses_df st)) scores))))"

subsection \<open>Collaborative recommender\<close>

text \<open>
  Python dictionaries keep insertion order, so a dictionary is an association list:
  \<open>AList.update\<close> replaces the value of a key in place and appends a new key.
\<close>

definition masked :: "bool list \<Rightarrow> real list \<Rightarrow> real list" where
  "masked msk xs = map snd (filter fst (zip msk xs))"

definition similar_students ::
  "interaction_matrix \<Rightarrow> string \<Rightarrow> (string \<times> real) list"
where
  "similar_students m sid =
     (let student_ratings = loc m sid
      in foldl (\<lambda>student_similarities other_id.
           if other_id \<noteq> sid then
             (let other_ratings = loc m other_id;
                  msk = map2 (\<lambda>a b. 0 < a \<and> 0 < b) student_ratings other_ratings;
                  common_courses = length (filter id msk)
              in if 2 \<le> common_courses then
                   (if length (filter id msk) = 0 then student_similarities
                    else AList.update other_id
                           (hd (hd (cosine_similarity [masked msk student_ratings]
                                      [masked msk other_ratings])))
                           student_similarities)
                 else student_similarities)
           else student_similarities)
         [] (m_index m))"

definition add_neighbour_scores ::
  "interaction_matrix \<Rightarrow> string \<Rightarrow> (string \<times> real) list \<Rightarrow> string \<times> real
     \<Rightarrow> (string \<times> real) list"
where
  "add_neighbour_scores m sid course_scores neighbour =
     (case neighbour of (other_id, similarity) \<Rightarrow>
        foldl (\<lambda>scores course.
          let other_rating = m_cell m other_id course
          in if 3 < other_rating \<and> m_cell m sid course = 0 then
               AList.update course
                 ((case map_of scores course of None \<Rightarrow> 0 | Some v \<Rightarrow> v)
                  + similarity * (other_rating / 5))
                 scores
             else scores)
        course_scores (m_columns m))"

definition get_collaborative_recommendations ::
  "model \<Rightarrow> string \<Rightarrow> int \<Rightarrow> (string \<times> real) list"
where
  "get_collaborative_recommendations st sid limit =
     (let m = student_course_matrix st
      in if sid \<notin> set (m_index m) then []
         else
           (let neighbours = py_slice 10 (sorted_desc (similar_students m sid));
                course_scores = foldl (add_neighbour_scores m sid) [] neighbours
            in py_slice limit (sorted_desc course_scores)))"

subsection \<open>Recommendation fusion and filtering\<close>

record recommendation =
  courseId :: string
  courseName :: string
  courseCode :: string
  rec_department :: string
  rec_credits :: int
  rec_difficulty :: string
  rec_description :: string
  rating :: "real option"
  matchScore :: int
  rec_keywords :: "string list"

definition taken_courses_of :: "model \<Rightarrow> string \<Rightarrow> bool \<Rightarrow> string set" where
  "taken_courses_of st sid exclude_taken =
     (if exclude_taken then set (student_courses_of (course_history_df st) sid) else {})"

text \<open>
  The collaborative list as \<^verbatim>\<open>recommend_courses\<close> builds it: empty unless the student
  has a row in the interaction matrix and that row does not sum to zero.
\<close>

definition collaborative_recs :: "model \<Rightarrow> string \<Rightarrow> int \<Rightarrow> (string \<times> real) list" where
  "collaborative_recs st sid limit =
     (let m = student_course_matrix st
      in if sid \<in> set (m_index m) \<and> \<not> (sum_list (loc m sid) = 0)
         then get_collaborative_recommendations st sid (limit * 2)
         else [])"

definition merge_content ::
  "string set \<Rightarrow> (string \<times> real) list \<Rightarrow> (string \<times> real) list \<Rightarrow> (string \<times> real) list"
where
  "merge_content taken all_recs content_based_recs =
     foldl (\<lambda>recs (cid, score).
        if cid \<notin> taken then AList.update cid (score * 0.4) recs else recs)
       all_recs content_based_recs"

definition merge_collaborative ::
  "string set \<Rightarrow> (string \<times> real) list \<Rightarrow> (string \<times> real) list \<Rightarrow> (string \<times> real) list"
where
  "merge_collaborative taken all_recs collab_recs =
     foldl (\<lambda>recs (cid, score).
        if cid \<notin> taken then
          (case map_of recs cid of
             Some v \<Rightarrow> AList.update cid (v + score * 0.6) recs
           | None \<Rightarrow> AList.update cid (score * 0.6) recs)
        else recs)
       all_recs collab_recs"

definition find_course :: "model \<Rightarrow> string \<Rightarrow> py_error + trained_course" where
  "find_course st cid = iloc0 (filter (\<lambda>c. course_id c = cid) (courses_df st))"

definition level_match :: "trained_course \<Rightarrow> int \<Rightarrow> real" where
  "level_match course student_year =
     (if level course div 100 = student_year then 1.2 else 1.0)"

definition final_score :: "trained_course \<Rightarrow> int \<Rightarrow> real \<Rightarrow> real" where
  "final_score course student_year score =
     (let popularity_boost = popularity_score course * 0.2
      in score * 0.6 + popularity_boost * 0.2 + level_match course student_year * 0.2)"

fun filter_courses ::
  "model \<Rightarrow> string set \<Rightarrow> int \<Rightarrow> string option \<Rightarrow> (string \<times> real) list
     \<Rightarrow> py_error + (string \<times> real) list"
where
  "filter_courses st taken student_year difficulty_filter [] = Inr []"
| "filter_courses st taken student_year difficulty_filter ((cid, score) # rest) =
     (case find_course st cid of
        Inl err \<Rightarrow> Inl err
      | Inr course \<Rightarrow>
          (case filter_courses st taken student_year difficulty_filter rest of
             Inl err \<Rightarrow> Inl err
           | Inr filtered \<Rightarrow>
               if difficulty_filter \<noteq> None \<and> Some (difficulty course) \<noteq> difficulty_filter
               then Inr filtered
               else if (\<forall>prereq \<in> set (prerequisites course). prereq \<in> taken)
               then Inr ((cid, final_score course student_year score) # filtered)
               else Inr filtered))"

text \<open>
  The ranked list \<^verbatim>\<open>top_courses\<close> of \<^verbatim>\<open>recommend_courses\<close>: the pairs of course and
  final score, sorted and cut to the limit, before they are formatted.
\<close>

definition top_courses ::
  "model \<Rightarrow> string \<Rightarrow> int \<Rightarrow> bool \<Rightarrow> string option \<Rightarrow> py_error + (string \<times> real) list"
where
  "top_courses st student limit exclude_taken difficulty_filter =
     (if course_similarity_matrix st = None then Inl ValueError
      else
        (let taken_courses = taken_courses_of st student exclude_taken
         in case iloc0 (filter (\<lambda>s. student_id s = student) (students_df st)) of
              Inl err \<Rightarrow> Inl err
            | Inr student_info \<Rightarrow>
                (case get_content_based_recommendations st student
                        (topic_interests student_info) (student_department student_info)
                        (limit * 2) of
                   Inl err \<Rightarrow> Inl err
                 | Inr content_based_recs \<Rightarrow>
                     (let all_recs =
                            merge_collaborative taken_courses
                              (merge_content taken_courses [] content_based_recs)
                              (collaborative_recs st student limit)
                      in case filter_courses st taken_courses (year_of_study student_info)
                                difficulty_filter all_recs of
                           Inl err \<Rightarrow> Inl err
                         | Inr filtered_courses \<Rightarrow>
                             Inr (py_slice limit (sorted_desc filtered_courses))))))"

definition course_info :: "trained_course \<Rightarrow> string \<Rightarrow> real \<Rightarrow> recommendation" where
  "course_info course cid score =
     \<lparr> courseId = cid,
       courseName = course_name course,
       courseCode = course_code course,
       rec_department = department course,
       rec_credits = credits course,
       rec_difficulty = difficulty course,
       rec_description = description course,
       rating = (case avg_rating course of None \<Rightarrow> None | Some r \<Rightarrow> Some r),
       matchScore = min (py_round (score * 100)) 100,
       rec_keywords = course_keywords course \<rparr>"

fun format_results :: "model \<Rightarrow> (string \<times> real) list \<Rightarrow> py_error + recommendation list" where
  "format_results st [] = Inr []"
| "format_results st ((cid, score) # rest) =
     (case find_course st cid of
        Inl err \<Rightarrow> Inl err
      | Inr course \<Rightarrow>
          (case format_results st rest of
             Inl err \<Rightarrow> Inl err
           | Inr recommendations \<Rightarrow> Inr (course_info course cid score # recommendations)))"

definition recommend_courses ::
  "model \<Rightarrow> string \<Rightarrow> int \<Rightarrow> bool \<Rightarrow> string option \<Rightarrow> py_error + recommendation list"
where
  "recommend_courses st student limit exclude_taken difficulty_filter =
     (case top_courses st student limit exclude_taken difficulty_filter of
        Inl err \<Rightarrow> Inl err
      | Inr ranked \<Rightarrow> format_results st ranked)"

subsection \<open>Training\<close>

text \<open>
  \<^verbatim>\<open>train\<close> on the three loaded tables: \<^verbatim>\<open>preprocess_data\<close> builds the content features
  from the courses and the interaction matrix from the history, then
  \<^verbatim>\<open>_calculate_course_popularity\<close> extends the course rows. The columns added by
  \<^verbatim>\<open>_calculate_course_difficulty\<close> are read by no other method and are left out.
  \<open>csv_has_avg_rating\<close> says whether the courses file has an \<^verbatim>\<open>avg_rating\<close> column of
  its own, as the files written by \<^verbatim>\<open>generate_dataset.py\<close> have.
\<close>

definition train ::
  "env \<Rightarrow> bool \<Rightarrow> course_row list \<Rightarrow> student_row list \<Rightarrow> history_row list \<Rightarrow> model"
where
  "train e csv_has_avg_rating courses students history =
     (case create_course_content_features e courses of
        (vectorizer, content_matrix, similarity) \<Rightarrow>
          \<lparr> courses_df = calculate_course_popularity csv_has_avg_rating history courses,
            students_df = students,
            course_history_df = history,
            course_vectorizer = vectorizer,
            course_content_matrix = content_matrix,
            course_similarity_matrix = Some similarity,
            student_course_matrix = create_student_course_matrix history \<rparr>)"

subsection \<open>Evaluator\<close>

record eval_row =
  er_student_id :: string
  hit :: bool
  rank :: "nat option"
  precision_at_5 :: nat
  precision_at_10 :: nat

record metrics =
  hit_rate :: real
  m_precision_at_5 :: real
  m_precision_at_10 :: real
  mrr :: real
  num_test_students :: nat

datatype eval_output = Error string | Metrics metrics

text \<open>
  One pass of the loop body of \<^verbatim>\<open>evaluate\<close> for a student with at least two courses:
  the last course of the set is held out, a temporary recommender is preprocessed on the
  remaining history, and its content-based list of 20 is searched for the held-out course.
\<close>

definition evaluate_student :: "env \<Rightarrow> model \<Rightarrow> string \<Rightarrow> py_error + eval_row" where
  "evaluate_student e st sid =
     (let student_courses = set (student_courses_of (course_history_df st) sid);
          test_course = last (set_to_list e student_courses);
          temp_history = filter (\<lambda>r. \<not> (hist_student_id r = sid \<and> hist_course_id r = test_course))
                           (course_history_df st);
          temp_recommender = preprocess_data e (st \<lparr> course_history_df := temp_history \<rparr>)
      in case iloc0 (filter (\<lambda>s. student_id s = sid) (students_df st)) of
           Inl err \<Rightarrow> Inl err
         | Inr info \<Rightarrow>
             (case get_content_based_recommendations temp_recommender sid
                     (topic_interests info) (student_department info) 20 of
                Inl err \<Rightarrow> Inl err
              | Inr recommendations \<Rightarrow>
                  (let rec_courses = map fst recommendations
                   in case first_index (\<lambda>c. c = test_course) rec_courses of
                        Some i \<Rightarrow>
                          Inr \<lparr> er_student_id = sid, hit = True, rank = Some (i + 1),
                                precision_at_5 = (if i + 1 \<le> 5 then 1 else 0),
                                precision_at_10 = (if i + 1 \<le> 10 then 1 else 0) \<rparr>
                      | None \<Rightarrow>
                          Inr \<lparr> er_student_id = sid, hit = False, rank = None,
                                precision_at_5 = 0, precision_at_10 = 0 \<rparr>)))"

fun evaluate_results :: "env \<Rightarrow> model \<Rightarrow> string list \<Rightarrow> py_error + eval_row list" where
  "evaluate_results e st [] = Inr []"
| "evaluate_results e st (sid # rest) =
     (if card (set (student_courses_of (course_history_df st) sid)) < 2
      then evaluate_results e st rest
      else (case evaluate_student e st sid of
              Inl err \<Rightarrow> Inl err
            | Inr row \<Rightarrow>
                (case evaluate_results e st rest of
                   Inl err \<Rightarrow> Inl err
                 | Inr results \<Rightarrow> Inr (row # results))))"

definition overall_metrics :: "eval_row list \<Rightarrow> eval_output" where
  "overall_metrics results =
     (if results = [] then Error ''No suitable test students found''
      else
        (let n = real (length results)
         in Metrics
              \<lparr> hit_rate = real (length (filter hit results)) / n,
                m_precision_at_5 = real (sum_list (map precision_at_5 results)) / n,
                m_precision_at_10 = real (sum_list (map precision_at_10 results)) / n,
                mrr = sum_list (map (\<lambda>r. case rank r of None \<Rightarrow> 0
                                            | Some k \<Rightarrow> 1 / real k) results) / n,
                num_test_students = length results \<rparr>))"

text \<open>
  \<^verbatim>\<open>evaluate\<close>. Without a list of test students, a fifth of the students (rounded down)
  is drawn by the seeded \<^verbatim>\<open>np.random.choice\<close>. The plots written before the metrics are
  returned are left out.
\<close>

definition test_students :: "env \<Rightarrow> model \<Rightarrow> string list option \<Rightarrow> string list" where
  "test_students e st test_student_ids =
     (case test_student_ids of
        Some ids \<Rightarrow> ids
      | None \<Rightarrow>
          (let all_students = unique (map student_id (students_df st))
           in random_choice e all_students (length all_students div 5)))"

definition evaluate :: "env \<Rightarrow> model \<Rightarrow> string list option \<Rightarrow> py_error + eval_output" where
  "evaluate e st test_student_ids =
     (if course_similarity_matrix st = None then Inl ValueError
      else
        (case evaluate_results e st (test_students e st test_student_ids) of
           Inl err \<Rightarrow> Inl err
         | Inr results \<Rightarrow> Inr (overall_metrics results)))"

section \<open>Example data\<close>

text \<open>
  A small campus used to run the definitions: five courses, four students and their
  history. The vectorizer of the example weighs a text on two terms, the first present in
  texts of the mathematics department and the second in all others.
\<close>

definition mk_course ::
  "string \<Rightarrow> string \<Rightarrow> string \<Rightarrow> string list \<Rightarrow> int \<Rightarrow> string \<Rightarrow> course_row"
where
  "mk_course cid name dept prereqs lvl diff =
     \<lparr> course_id = cid, course_code = ''X 101'', course_name = name, department = dept,
       description = ''topics'', prerequisites = prereqs, level = lvl, difficulty = diff,
       credits = 3, course_keywords = [] \<rparr>"

definition mk_hist :: "string \<Rightarrow> string \<Rightarrow> real option \<Rightarrow> real \<Rightarrow> history_row" where
  "mk_hist s c r g =
     \<lparr> hist_student_id = s, hist_course_id = c, student_rating = r, grade_value = g \<rparr>"

definition demo_env :: env where
  "demo_env =
     \<lparr> tfidf = (\<lambda>corpus text. if CHR ''M'' \<in> set text then [1, 0] else [0, 1]),
       random_choice = (\<lambda>xs n. take n xs),
       set_to_list = sorted_list_of_set \<rparr>"

definition demo_courses :: "course_row list" where
  "demo_courses =
     [mk_course ''COURSE1000'' ''Calculus'' ''Mathematics'' [] 100 ''introductory'',
      mk_course ''COURSE1001'' ''Statistics'' ''Mathematics'' [] 100 ''introductory'',
      mk_course ''COURSE1002'' ''Topology'' ''Mathematics'' [''COURSE1000''] 200 ''intermediate'',
      mk_course ''COURSE1003'' ''Drawing'' ''Arts'' [] 100 ''introductory'',
      mk_course ''COURSE1004'' ''Painting'' ''Arts'' [''COURSE1003''] 200 ''intermediate'']"

definition demo_students :: "student_row list" where
  "demo_students =
     [\<lparr> student_id = ''S1000'', major = ''Statistics'', student_department = ''Mathematics'',
        year_of_study = 2, gpa = 3, topic_interests = [''algebra''] \<rparr>,
      \<lparr> student_id = ''S1001'', major = ''Statistics'', student_department = ''Mathematics'',
        year_of_study = 3, gpa = 3, topic_interests = [] \<rparr>,
      \<lparr> student_id = ''S1002'', major = ''Music'', student_department = ''Arts'',
        year_of_study = 1, gpa = 2, topic_interests = [] \<rparr>,
      \<lparr> student_id = ''S1003'', major = ''Music'', student_department = ''Arts'',
        year_of_study = 1, gpa = 3, topic_interests = [''art''] \<rparr>]"

definition demo_history :: "history_row list" where
  "demo_history =
     [mk_hist ''S1000'' ''COURSE1000'' (Some 3) 3,
      mk_hist ''S1000'' ''COURSE1001'' (Some 4) 4,
      mk_hist ''S1001'' ''COURSE1000'' (Some 3) 3,
      mk_hist ''S1001'' ''COURSE1001'' (Some 4) 3,
      mk_hist ''S1001'' ''COURSE1002'' (Some 5) 4,
      mk_hist ''S1002'' ''COURSE1003'' None 0]"

definition demo_model :: model where
  "demo_model = train demo_env False demo_courses demo_students demo_history"

text \<open>A history with a retaken course.\<close>

definition retake_history :: "history_row list" where
  "retake_history =
     [mk_hist ''S1000'' ''COURSE1000'' (Some 2) 3,
      mk_hist ''S1000'' ''COURSE1000'' (Some 5) 4,
      mk_hist ''S1001'' ''COURSE1001'' None 0]"

text \<open>A cohort in which every student has exactly one course.\<close>

definition single_history :: "history_row list" where
  "single_history =
     [mk_hist ''S1000'' ''COURSE1000'' (Some 3) 3,
      mk_hist ''S1001'' ''COURSE1001'' (Some 4) 3,
      mk_hist ''S1002'' ''COURSE1003'' None 2,
      mk_hist ''S1003'' ''COURSE1003'' (Some 5) 4]"

definition single_model :: model where
  "single_model = train demo_env False demo_courses demo_students single_history"

text \<open>The history of the example with one rating of -500 in it.\<close>

definition negative_history :: "history_row list" where
  "negative_history =
     [mk_hist ''S1000'' ''COURSE1000'' (Some 3) 3,
      mk_hist ''S1000'' ''COURSE1001'' (Some 4) 4,
      mk_hist ''S1001'' ''COURSE1000'' (Some 3) 3,
      mk_hist ''S1001'' ''COURSE1001'' (Some 4) 3,
      mk_hist ''S1001'' ''COURSE1002'' (Some (- 500)) 4,
      mk_hist ''S1002'' ''COURSE1003'' None 0]"

definition negative_model :: model where
  "negative_model = train demo_env False demo_courses demo_students negative_history"

section \<open>Unfolding the definitions on concrete data\<close>

lemmas demo_defs = demo_env_def mk_course_def demo_courses_def demo_students_def mk_hist_def
  demo_history_def demo_model_def single_history_def single_model_def

lemmas train_defs = train_def create_course_content_features_def content_text_def
  cosine_similarity_def normalize_row_def l2_norm_def dot_def calculate_course_popularity_def
  enrollments_def fillna0_def merged_avg_rating_def course_ratings_def mean_def rating_max_def
  create_student_course_matrix_def pivot_table_def pivot_cell_def group_values_def
  interaction_value_def implied_rating_def max_grade_def course_row.extend_def

lemmas rec_defs = collaborative_recs_def loc_def get_collaborative_recommendations_def
  similar_students_def masked_def py_slice_def sorted_desc_def add_neighbour_scores_def
  top_courses_def recommend_courses_def taken_courses_of_def student_courses_of_def iloc0_def
  get_content_based_recommendations_def query_text_def unique_def add_half_def
  merge_content_def merge_collaborative_def find_course_def final_score_def level_match_def
  course_info_def py_round_def

lemma sqrt_25: "sqrt 25 = 5"
  by (rule real_sqrt_unique) simp_all

text \<open>The recommendations of the example model for its first student.\<close>

lemma demo_top_courses:
  "top_courses demo_model ''S1000'' 5 True None
     = Inr [(''COURSE1002'', 553 / 500), (''COURSE1003'', 107 / 500)]"
  by (simp add: demo_defs train_defs Let_def rec_defs sqrt_25)

lemma demo_recommend_courses:
  "recommend_courses demo_model ''S1000'' 5 True None
     = Inr [\<lparr> courseId = ''COURSE1002'', courseName = ''Topology'', courseCode = ''X 101'',
               rec_department = ''Mathematics'', rec_credits = 3,
               rec_difficulty = ''intermediate'', rec_description = ''topics'',
               rating = Some 5, matchScore = 100, rec_keywords = [] \<rparr>,
            \<lparr> courseId = ''COURSE1003'', courseName = ''Drawing'', courseCode = ''X 101'',
               rec_department = ''Arts'', rec_credits = 3,
               rec_difficulty = ''introductory'', rec_description = ''topics'',
               rating = Some 0, matchScore = 21, rec_keywords = [] \<rparr>]"
  by (simp add: demo_defs train_defs Let_def rec_defs sqrt_25)

lemma demo_recommend_courses_all:
  "recommend_courses demo_model ''S1000'' 5 False None
     = Inr [\<lparr> courseId = ''COURSE1001'', courseName = ''Statistics'', courseCode = ''X 101'',
               rec_department = ''Mathematics'', rec_credits = 3,
               rec_difficulty = ''introductory'', rec_description = ''topics'',
               rating = Some 4, matchScore = 72, rec_keywords = [] \<rparr>,
            \<lparr> courseId = ''COURSE1000'', courseName = ''Calculus'', courseCode = ''X 101'',
               rec_department = ''Mathematics'', rec_credits = 3,
               rec_difficulty = ''introductory'', rec_description = ''topics'',
               rating = Some 3, matchScore = 72, rec_keywords = [] \<rparr>,
            \<lparr> courseId = ''COURSE1003'', courseName = ''Drawing'', courseCode = ''X 101'',
               rec_department = ''Arts'', rec_credits = 3,
               rec_difficulty = ''introductory'', rec_description = ''topics'',
               rating = Some 0, matchScore = 21, rec_keywords = [] \<rparr>]"
  by (simp add: demo_defs train_defs Let_def rec_defs sqrt_25)

lemma demo_find_course:
  "find_course demo_model ''COURSE1002''
     = Inr \<lparr> course_id = ''COURSE1002'', course_code = ''X 101'', course_name = ''Topology'',
             department = ''Mathematics'', description = ''topics'',
             prerequisites = [''COURSE1000''], level = 200, difficulty = ''intermediate'',
             credits = 3, course_keywords = [], enrollment_count = 1, avg_rating = Some 5,
             popularity_score = 13 / 20 \<rparr>"
  "find_course demo_model ''COURSE1003''
     = Inr \<lparr> course_id = ''COURSE1003'', course_code = ''X 101'', course_name = ''Drawing'',
             department = ''Arts'', description = ''topics'',
             prerequisites = [], level = 100, difficulty = ''introductory'',
             credits = 3, course_keywords = [], enrollment_count = 1, avg_rating = Some 0,
             popularity_score = 7 / 20 \<rparr>"
  by (simp_all add: demo_defs train_defs Let_def find_course_def iloc0_def)

section \<open>Interaction matrix\<close>

lemma in_pivot_labels:
  "r \<in> set h \<Longrightarrow> hist_student_id r \<in> set (m_index (pivot_table h))
     \<and> hist_course_id r \<in> set (m_columns (pivot_table h))"
  by (simp add: pivot_table_def)

lemma matrix_cell_pivot:
  assumes "r \<in> set h" "hist_student_id r = s" "hist_course_id r = c"
  shows "matrix_cell (create_student_course_matrix h) s c = Some (pivot_cell h s c)"
  using in_pivot_labels [OF assms(1)] assms(2,3)
  by (auto simp add: matrix_cell_def create_student_course_matrix_def pivot_table_def)

lemma sum_list_all_equal:
  "\<forall>x \<in> set xs. x = v \<Longrightarrow> sum_list xs = real (length xs) * (v::real)"
  by (induction xs) (auto simp: algebra_simps)

text \<open>
  C4, as stated, fails for a retaken course: the cell is not the rating of the record.
  The first record of \<open>retake_history\<close> carries the rating 2, and the cell of its student
  and course holds 7/2.
\<close>

theorem interaction_value_stored_counterexample:
  "mk_hist ''S1000'' ''COURSE1000'' (Some 2) 3 \<in> set retake_history
   \<and> student_rating (mk_hist ''S1000'' ''COURSE1000'' (Some 2) 3) = Some 2
   \<and> matrix_cell (create_student_course_matrix retake_history) ''S1000'' ''COURSE1000''
       = Some (7 / 2)"
  by (simp add: retake_history_def mk_hist_def matrix_cell_def create_student_course_matrix_def
        pivot_table_def pivot_cell_def group_values_def mean_def interaction_value_def
        implied_rating_def max_grade_def)

text \<open>
  C4, amended: for a history record whose (student, course) pair has no other record, the
  cell of the student-by-course matrix equals the record's rating when the rating is
  present; when it is absent and the grade is between 0.8 and 4, the cell equals
  \<open>grade_value / 4 * 5\<close>, a value in the range 1 to 5. Nothing is said here of an unrated
  record with a lower grade.
\<close>

theorem interaction_value_stored:
  assumes "r \<in> set h"
    and "\<forall>r' \<in> set h. hist_student_id r' = hist_student_id r
            \<and> hist_course_id r' = hist_course_id r \<longrightarrow> r' = r"
    and "student_rating r = None \<longrightarrow> 4 / 5 \<le> grade_value r \<and> grade_value r \<le> 4"
  shows "\<exists>v. matrix_cell (create_student_course_matrix h) (hist_student_id r)
                (hist_course_id r) = Some v
           \<and> (case student_rating r of
                 Some x \<Rightarrow> v = x
               | None \<Rightarrow> v = grade_value r / 4 * 5 \<and> 1 \<le> v \<and> v \<le> 5)"
proof -
  let ?vs = "group_values h (hist_student_id r) (hist_course_id r)"
  have same: "\<forall>x \<in> set ?vs. x = interaction_value r"
    using assms(2) by (auto simp: group_values_def)
  have ne: "?vs \<noteq> []"
    using assms(1) by (auto simp: group_values_def filter_empty_conv)
  then have "mean ?vs = interaction_value r"
    using sum_list_all_equal [OF same] by (simp add: mean_def)
  then have "pivot_cell h (hist_student_id r) (hist_course_id r) = interaction_value r"
    using ne by (simp add: pivot_cell_def Let_def)
  then have cell: "matrix_cell (create_student_course_matrix h) (hist_student_id r)
      (hist_course_id r) = Some (interaction_value r)"
    using matrix_cell_pivot [OF assms(1) refl refl] by simp
  have "case student_rating r of
          Some x \<Rightarrow> interaction_value r = x
        | None \<Rightarrow> interaction_value r = grade_value r / 4 * 5
                  \<and> 1 \<le> interaction_value r \<and> interaction_value r \<le> 5"
    using assms(3)
    by (simp add: interaction_value_def implied_rating_def max_grade_def split: option.splits)
  with cell show ?thesis by blast
qed

theorem interaction_value_stored_witness:
  "mk_hist ''S1001'' ''COURSE1002'' (Some 5) 4 \<in> set demo_history
   \<and> matrix_cell (create_student_course_matrix demo_history) ''S1001'' ''COURSE1002'' = Some 5
   \<and> mk_hist ''S1002'' ''COURSE1003'' None 2 \<in> set single_history
   \<and> (4 / 5 :: real) \<le> 2 \<and> (2 :: real) \<le> 4
   \<and> matrix_cell (create_student_course_matrix single_history) ''S1002'' ''COURSE1003''
       = Some (5 / 2)"
proof -
  have a: "mk_hist ''S1001'' ''COURSE1002'' (Some 5) 4 \<in> set demo_history"
    by (simp add: demo_history_def)
  have b: "mk_hist ''S1002'' ''COURSE1003'' None 2 \<in> set single_history"
    by (simp add: single_history_def)
  have c: "(4 / 5 :: real) \<le> 2" and d: "(2 :: real) \<le> 4"
    by simp_all
  have "\<exists>v. matrix_cell (create_student_course_matrix demo_history) ''S1001'' ''COURSE1002''
          = Some v \<and> v = 5"
    using interaction_value_stored [of "mk_hist ''S1001'' ''COURSE1002'' (Some 5) 4"
        demo_history]
    by (simp add: demo_history_def mk_hist_def)
  then have e: "matrix_cell (create_student_course_matrix demo_history) ''S1001''
      ''COURSE1002'' = Some 5"
    by (elim exE conjE) (simp only:)
  have "\<exists>v. matrix_cell (create_student_course_matrix single_history) ''S1002''
          ''COURSE1003'' = Some v \<and> v = 5 / 2 \<and> 1 \<le> v \<and> v \<le> 5"
    using interaction_value_stored [of "mk_hist ''S1002'' ''COURSE1003'' None 2"
        single_history]
    by (simp add: single_history_def mk_hist_def)
  then have f: "matrix_cell (create_student_course_matrix single_history) ''S1002''
      ''COURSE1003'' = Some (5 / 2)"
    by (elim exE conjE) (simp only:)
  show ?thesis
    by (rule conjI [OF a conjI [OF e conjI [OF b conjI [OF c conjI [OF d f]]]]])
qed

text \<open>
  C10: when a student has several history records for one course, the cell of the matrix
  for that pair is the arithmetic mean of the interaction values of those records.
\<close>

theorem retake_mean:
  assumes "group_values h s c \<noteq> []"
  shows "matrix_cell (create_student_course_matrix h) s c
           = Some (sum_list (group_values h s c) / real (length (group_values h s c)))"
proof -
  from assms obtain r where r: "r \<in> set h" "hist_student_id r = s" "hist_course_id r = c"
    by (auto simp: group_values_def filter_empty_conv)
  then show ?thesis using assms matrix_cell_pivot [OF r]
    by (simp add: pivot_cell_def mean_def Let_def)
qed

theorem retake_mean_witness:
  "group_values retake_history ''S1000'' ''COURSE1000'' = [2, 5]
   \<and> matrix_cell (create_student_course_matrix retake_history) ''S1000'' ''COURSE1000''
       = Some ((2 + 5) / 2)"
  using retake_mean [of retake_history "''S1000''" "''COURSE1000''"]
  by (simp add: retake_history_def mk_hist_def group_values_def interaction_value_def)

section \<open>Collaborative recommender\<close>

lemma foldl_unchanged: "(\<And>x. x \<in> set xs \<Longrightarrow> f a x = a) \<Longrightarrow> foldl f a xs = a"
  by (induction xs) auto

lemma zero_row_no_common:
  assumes "\<forall>v \<in> set xs. v = (0::real)"
  shows "filter id (map2 (\<lambda>a b. 0 < a \<and> 0 < b) xs ys) = []"
  using assms by (auto simp: filter_empty_conv dest!: set_zip_leftD)

lemma similar_students_zero_row:
  assumes "\<forall>c \<in> set (m_columns m). m_cell m sid c = 0"
  shows "similar_students m sid = []"
proof -
  have z: "\<forall>v \<in> set (loc m sid). v = 0" using assms by (auto simp: loc_def)
  show ?thesis
    unfolding similar_students_def Let_def
    by (rule foldl_unchanged) (simp add: zero_row_no_common [OF z])
qed

text \<open>
  C7: for a student with no row in the interaction matrix the collaborative recommender
  returns the empty list, and \<^verbatim>\<open>recommend_courses\<close> takes the empty list as the
  collaborative candidates of a student with no row or with a row that sums to zero. The
  recommender itself also returns the empty list for a row of zeros.
\<close>

theorem no_history_no_collaborative:
  "(student \<notin> set (m_index (student_course_matrix st)) \<longrightarrow>
      get_collaborative_recommendations st student n = []
      \<and> collaborative_recs st student limit = [])
   \<and> (sum_list (loc (student_course_matrix st) student) = 0 \<longrightarrow>
      collaborative_recs st student limit = [])
   \<and> ((\<forall>c \<in> set (m_columns (student_course_matrix st)).
          m_cell (student_course_matrix st) student c = 0) \<longrightarrow>
      get_collaborative_recommendations st student n = [])"
  by (simp add: get_collaborative_recommendations_def collaborative_recs_def Let_def
        similar_students_zero_row py_slice_def sorted_desc_def)

theorem no_history_no_collaborative_witness:
  "''S1003'' \<notin> set (m_index (student_course_matrix demo_model))
   \<and> get_collaborative_recommendations demo_model ''S1003'' 10 = []
   \<and> collaborative_recs demo_model ''S1003'' 5 = []
   \<and> ''S1002'' \<in> set (m_index (student_course_matrix demo_model))
   \<and> sum_list (loc (student_course_matrix demo_model) ''S1002'') = 0
   \<and> collaborative_recs demo_model ''S1002'' 5 = []
   \<and> get_collaborative_recommendations demo_model ''S1002'' 10 = []"
proof -
  have a: "''S1003'' \<notin> set (m_index (student_course_matrix demo_model))"
    by (simp add: demo_defs train_defs)
  have b: "''S1002'' \<in> set (m_index (student_course_matrix demo_model))"
    by (simp add: demo_defs train_defs)
  have c: "loc (student_course_matrix demo_model) ''S1002'' = [0, 0, 0, 0]"
    by (simp add: demo_defs train_defs loc_def)
  have d: "\<forall>c \<in> set (m_columns (student_course_matrix demo_model)).
          m_cell (student_course_matrix demo_model) ''S1002'' c = 0"
    by (simp add: demo_defs train_defs)
  show ?thesis
    using a b c d no_history_no_collaborative [of "''S1003''" demo_model 10 5]
      no_history_no_collaborative [of "''S1002''" demo_model 10 5]
    by simp
qed

section \<open>Fusion and filtering\<close>

lemma set_py_slice: "set (py_slice n xs) \<subseteq> set xs"
  by (auto simp: py_slice_def dest: in_set_takeD)

lemma set_sorted_desc: "set (sorted_desc ps) = set ps"
  by (simp add: sorted_desc_def)

lemma filter_courses_sound:
  "filter_courses st taken y df recs = Inr out \<Longrightarrow> (cid, fs) \<in> set out \<Longrightarrow>
     \<exists>score course. (cid, score) \<in> set recs \<and> find_course st cid = Inr course
        \<and> fs = final_score course y score
        \<and> set (prerequisites course) \<subseteq> taken
        \<and> (df \<noteq> None \<longrightarrow> df = Some (difficulty course))"
proof (induction recs arbitrary: out)
  case Nil
  then show ?case by simp
next
  case (Cons p recs)
  obtain c s where p: "p = (c, s)" by (cases p)
  from Cons.prems(1) obtain course where fc: "find_course st c = Inr course"
    by (auto simp: p split: sum.splits)
  from Cons.prems(1) fc obtain rest where rest: "filter_courses st taken y df recs = Inr rest"
    by (auto simp: p split: sum.splits)
  have out: "out = rest \<or> (out = (c, final_score course y s) # rest
       \<and> set (prerequisites course) \<subseteq> taken \<and> (df \<noteq> None \<longrightarrow> df = Some (difficulty course)))"
    using Cons.prems(1) fc rest by (auto simp: p split: if_splits)
  show ?case
  proof (cases "(cid, fs) \<in> set rest")
    case True
    from Cons.IH [OF rest True] show ?thesis by auto
  next
    case False
    with out Cons.prems(2) have "cid = c" "fs = final_score course y s"
      "set (prerequisites course) \<subseteq> taken" "df \<noteq> None \<longrightarrow> df = Some (difficulty course)"
      by auto
    with fc show ?thesis by (auto simp: p)
  qed
qed

lemma format_results_sound:
  "format_results st ranked = Inr recs \<Longrightarrow> r \<in> set recs \<Longrightarrow>
     \<exists>cid score course. (cid, score) \<in> set ranked \<and> find_course st cid = Inr course
        \<and> r = course_info course cid score"
proof (induction ranked arbitrary: recs)
  case Nil
  then show ?case by simp
next
  case (Cons p ranked)
  obtain c s where p: "p = (c, s)" by (cases p)
  from Cons.prems(1) obtain course rest where
    fc: "find_course st c = Inr course" and rest: "format_results st ranked = Inr rest"
    and recs: "recs = course_info course c s # rest"
    by (auto simp: p split: sum.splits)
  show ?case
  proof (cases "r \<in> set rest")
    case True
    from Cons.IH [OF rest True] show ?thesis by auto
  next
    case False
    with recs Cons.prems(2) have "r = course_info course c s" by simp
    with fc show ?thesis by (auto simp: p)
  qed
qed

lemma top_courses_unfold:
  assumes "top_courses st student limit exclude_taken df = Inr ranked"
  obtains info content filtered where
      "course_similarity_matrix st \<noteq> None"
      "iloc0 (filter (\<lambda>s. student_id s = student) (students_df st)) = Inr info"
      "get_content_based_recommendations st student (topic_interests info)
            (student_department info) (limit * 2) = Inr content"
      "filter_courses st (taken_courses_of st student exclude_taken) (year_of_study info) df
            (merge_collaborative (taken_courses_of st student exclude_taken)
               (merge_content (taken_courses_of st student exclude_taken) [] content)
               (collaborative_recs st student limit)) = Inr filtered"
      "ranked = py_slice limit (sorted_desc filtered)"
  using assms unfolding top_courses_def Let_def
  by (auto split: if_splits sum.splits)

lemma recommend_courses_unfold:
  assumes "recommend_courses st student limit exclude_taken df = Inr recs"
  obtains ranked where "top_courses st student limit exclude_taken df = Inr ranked"
           "format_results st ranked = Inr recs"
  using assms unfolding recommend_courses_def by (auto split: sum.splits)

text \<open>
  C2: with \<^verbatim>\<open>exclude_taken\<close> set, the prerequisites of every returned course are among
  the courses of the student's history; without it the taken set is empty, and every
  returned course has no prerequisite.
\<close>

theorem prerequisites_met:
  assumes "recommend_courses st student limit exclude_taken df = Inr recs"
    and "r \<in> set recs"
  shows "\<exists>course. find_course st (courseId r) = Inr course
           \<and> (exclude_taken \<longrightarrow>
                set (prerequisites course)
                  \<subseteq> set (student_courses_of (course_history_df st) student))
           \<and> (\<not> exclude_taken \<longrightarrow>
                taken_courses_of st student exclude_taken = {} \<and> prerequisites course = [])"
proof -
  from assms(1) obtain ranked where
    top: "top_courses st student limit exclude_taken df = Inr ranked"
    and fmt: "format_results st ranked = Inr recs" by (rule recommend_courses_unfold)
  from format_results_sound [OF fmt assms(2)] obtain cid score course where
    in_ranked: "(cid, score) \<in> set ranked" and fc: "find_course st cid = Inr course"
    and r: "r = course_info course cid score" by blast
  from top obtain info content filtered where
    "course_similarity_matrix st \<noteq> None"
    "iloc0 (filter (\<lambda>s. student_id s = student) (students_df st)) = Inr info"
    "get_content_based_recommendations st student (topic_interests info)
            (student_department info) (limit * 2) = Inr content"
    and flt: "filter_courses st (taken_courses_of st student exclude_taken) (year_of_study info) df
            (merge_collaborative (taken_courses_of st student exclude_taken)
               (merge_content (taken_courses_of st student exclude_taken) [] content)
               (collaborative_recs st student limit)) = Inr filtered"
    and ranked: "ranked = py_slice limit (sorted_desc filtered)"
    by (rule top_courses_unfold)
  from in_ranked ranked have "(cid, score) \<in> set filtered"
    using set_py_slice [of limit "sorted_desc filtered"] by (auto simp: set_sorted_desc)
  from filter_courses_sound [OF flt this] fc
  have sub: "set (prerequisites course) \<subseteq> taken_courses_of st student exclude_taken"
    by auto
  have id: "courseId r = cid" by (simp add: r course_info_def)
  show ?thesis
    using fc sub by (auto simp: id taken_courses_of_def)
qed

theorem prerequisites_met_witness:
  "recommend_courses demo_model ''S1000'' 5 True None
     = Inr [\<lparr> courseId = ''COURSE1002'', courseName = ''Topology'', courseCode = ''X 101'',
               rec_department = ''Mathematics'', rec_credits = 3,
               rec_difficulty = ''intermediate'', rec_description = ''topics'',
               rating = Some 5, matchScore = 100, rec_keywords = [] \<rparr>,
            \<lparr> courseId = ''COURSE1003'', courseName = ''Drawing'', courseCode = ''X 101'',
               rec_department = ''Arts'', rec_credits = 3,
               rec_difficulty = ''introductory'', rec_description = ''topics'',
               rating = Some 0, matchScore = 21, rec_keywords = [] \<rparr>]
   \<and> (\<exists>course. find_course demo_model ''COURSE1002'' = Inr course
          \<and> prerequisites course = [''COURSE1000'']
          \<and> ''COURSE1000'' \<in> set (student_courses_of (course_history_df demo_model) ''S1000''))
   \<and> (\<exists>recs. recommend_courses demo_model ''S1000'' 5 False None = Inr recs
          \<and> map courseId recs = [''COURSE1001'', ''COURSE1000'', ''COURSE1003''])
   \<and> (\<exists>course. find_course demo_model ''COURSE1003'' = Inr course
          \<and> prerequisites course = [])"
proof -
  let ?r = "\<lparr> courseId = ''COURSE1002'', courseName = ''Topology'', courseCode = ''X 101'',
               rec_department = ''Mathematics'', rec_credits = 3,
               rec_difficulty = ''intermediate'', rec_description = ''topics'',
               rating = Some 5, matchScore = 100, rec_keywords = [] \<rparr>"
  let ?q = "\<lparr> courseId = ''COURSE1003'', courseName = ''Drawing'', courseCode = ''X 101'',
               rec_department = ''Arts'', rec_credits = 3,
               rec_difficulty = ''introductory'', rec_description = ''topics'',
               rating = Some 0, matchScore = 21, rec_keywords = [] \<rparr>"
  have "\<exists>course. find_course demo_model (courseId ?r) = Inr course
          \<and> (True \<longrightarrow> set (prerequisites course)
               \<subseteq> set (student_courses_of (course_history_df demo_model) ''S1000''))
          \<and> (\<not> True \<longrightarrow>
                taken_courses_of demo_model ''S1000'' True = {} \<and> prerequisites course = [])"
    by (rule prerequisites_met [OF demo_recommend_courses]) simp
  then have a: "\<exists>course. find_course demo_model ''COURSE1002'' = Inr course
          \<and> prerequisites course = [''COURSE1000'']
          \<and> ''COURSE1000'' \<in> set (student_courses_of (course_history_df demo_model) ''S1000'')"
    by (simp add: demo_find_course(1))
  have "\<exists>course. find_course demo_model (courseId ?q) = Inr course
          \<and> (False \<longrightarrow> set (prerequisites course)
               \<subseteq> set (student_courses_of (course_history_df demo_model) ''S1000''))
          \<and> (\<not> False \<longrightarrow>
                taken_courses_of demo_model ''S1000'' False = {} \<and> prerequisites course = [])"
    by (rule prerequisites_met [OF demo_recommend_courses_all]) simp
  then have b: "\<exists>course. find_course demo_model ''COURSE1003'' = Inr course
          \<and> prerequisites course = []"
    by (simp add: demo_find_course(2))
  have c: "\<exists>recs. recommend_courses demo_model ''S1000'' 5 False None = Inr recs
          \<and> map courseId recs = [''COURSE1001'', ''COURSE1000'', ''COURSE1003'']"
    by (simp add: demo_recommend_courses_all)
  from a b c show ?thesis
    by (simp only: demo_recommend_courses simp_thms)
qed

section \<open>Evaluator\<close>

lemma evaluate_results_skip:
  "evaluate_results e st ids
     = evaluate_results e st
         (filter (\<lambda>sid. 2 \<le> card (set (student_courses_of (course_history_df st) sid))) ids)"
  by (induction ids) (auto simp: not_less split: sum.splits)

lemma evaluate_results_students:
  "evaluate_results e st ids = Inr rows \<Longrightarrow> row \<in> set rows \<Longrightarrow>
     er_student_id row \<in> set ids
     \<and> 2 \<le> card (set (student_courses_of (course_history_df st) (er_student_id row)))"
proof (induction ids arbitrary: rows)
  case Nil
  then show ?case by simp
next
  case (Cons sid ids)
  show ?case
  proof (cases "card (set (student_courses_of (course_history_df st) sid)) < 2")
    case True
    with Cons.prems have "evaluate_results e st ids = Inr rows" by simp
    from Cons.IH [OF this Cons.prems(2)] show ?thesis by simp
  next
    case False
    with Cons.prems(1) obtain r rest where
      r: "evaluate_student e st sid = Inr r" and rest: "evaluate_results e st ids = Inr rest"
      and rows: "rows = r # rest"
      by (auto split: sum.splits)
    have sid: "er_student_id r = sid"
      using r by (auto simp: evaluate_student_def Let_def split: sum.splits option.splits)
    show ?thesis
    proof (cases "row \<in> set rest")
      case True
      from Cons.IH [OF rest True] show ?thesis by simp
    next
      case no: False
      with rows Cons.prems(2) have "row = r" by simp
      with sid False show ?thesis by simp
    qed
  qed
qed

lemma evaluate_results_all_skipped:
  "\<forall>sid \<in> set ids. card (set (student_courses_of (course_history_df st) sid)) < 2 \<Longrightarrow>
     evaluate_results e st ids = Inr []"
  by (induction ids) auto

text \<open>
  C8: the evaluator passes over every test student with fewer than two distinct courses
  in the history (its result list is that of the students with at least two, and holds
  rows of such students only), and when no test student has two courses, a trained
  evaluator returns the error record \<^verbatim>\<open>No suitable test students found\<close>.
\<close>

theorem evaluator_skips_short_histories:
  "evaluate_results e st ids
     = evaluate_results e st
         (filter (\<lambda>sid. 2 \<le> card (set (student_courses_of (course_history_df st) sid))) ids)
   \<and> (\<forall>rows. evaluate_results e st ids = Inr rows \<longrightarrow>
        (\<forall>row \<in> set rows.
           2 \<le> card (set (student_courses_of (course_history_df st) (er_student_id row)))))
   \<and> (course_similarity_matrix st \<noteq> None
        \<and> (\<forall>sid \<in> set (test_students e st test_student_ids).
              card (set (student_courses_of (course_history_df st) sid)) < 2)
       \<longrightarrow> evaluate e st test_student_ids = Inr (Error ''No suitable test students found''))"
  using evaluate_results_skip [of e st ids] evaluate_results_students [of e st ids]
    evaluate_results_all_skipped [of "test_students e st test_student_ids" st e]
  by (auto simp: evaluate_def overall_metrics_def)

theorem evaluator_skips_short_histories_witness:
  "course_similarity_matrix single_model \<noteq> None
   \<and> test_students demo_env single_model (Some [''S1000'', ''S1001'', ''S1002'', ''S1003''])
       = [''S1000'', ''S1001'', ''S1002'', ''S1003'']
   \<and> map (\<lambda>sid. card (set (student_courses_of (course_history_df single_model) sid)))
        [''S1000'', ''S1001'', ''S1002'', ''S1003''] = [1, 1, 1, 1]
   \<and> evaluate demo_env single_model (Some [''S1000'', ''S1001'', ''S1002'', ''S1003''])
       = Inr (Error ''No suitable test students found'')"
proof -
  have a: "course_similarity_matrix single_model \<noteq> None"
    by (simp add: single_model_def train_def create_course_content_features_def Let_def)
  have b: "test_students demo_env single_model (Some [''S1000'', ''S1001'', ''S1002'', ''S1003''])
       = [''S1000'', ''S1001'', ''S1002'', ''S1003'']"
    by (simp add: test_students_def)
  have c: "map (\<lambda>sid. card (set (student_courses_of (course_history_df single_model) sid)))
        [''S1000'', ''S1001'', ''S1002'', ''S1003''] = [1, 1, 1, 1]"
    by (simp add: single_model_def train_def create_course_content_features_def Let_def
          single_history_def mk_hist_def student_courses_of_def)
  show ?thesis
    using a b c
      evaluator_skips_short_histories [of demo_env single_model
        "[''S1000'', ''S1001'', ''S1002'', ''S1003'']"
        "Some [''S1000'', ''S1001'', ''S1002'', ''S1003'']"]
    by simp
qed

section \<open>Course rows of a trained model\<close>

lemma iloc0_Inr_iff: "iloc0 xs = Inr x \<longleftrightarrow> xs \<noteq> [] \<and> x = hd xs"
  by (cases xs) (auto simp: iloc0_def)

lemma find_course_in:
  assumes "find_course st cid = Inr course"
  shows "course \<in> set (courses_df st) \<and> course_id course = cid"
proof -
  from assms obtain rest where
    "filter (\<lambda>c. course_id c = cid) (courses_df st) = course # rest"
    by (auto simp: find_course_def iloc0_def split: list.splits)
  then have "course \<in> set (filter (\<lambda>c. course_id c = cid) (courses_df st))"
    by simp
  then show ?thesis by simp
qed


lemma courses_df_train:
  "courses_df (train e flag courses students history)
     = calculate_course_popularity flag history courses"
  by (simp add: train_def split: prod.splits)

lemma popularity_row:
  assumes "course \<in> set (calculate_course_popularity flag h courses)"
  shows "avg_rating course
           = (if flag then Some 0 else fillna0 (merged_avg_rating h (course_id course)))"
  using assms
  by (auto simp: calculate_course_popularity_def Let_def course_row.extend_def)

text \<open>
  C9 does not hold of the code. \<^verbatim>\<open>_calculate_course_popularity\<close> replaces a missing
  average rating by 0 before \<^verbatim>\<open>recommend_courses\<close> tests it for NaN, so the record of
  a returned course always carries a number: every rating field is not \<open>None\<close>, and it is
  0 for a course that has no rating in the history.
\<close>

theorem unrated_course_rating:
  assumes "recommend_courses (train e flag courses students history)
             student limit exclude_taken df = Inr recs"
    and "r \<in> set recs"
  shows "rating r \<noteq> None
         \<and> (course_ratings history (courseId r) = [] \<longrightarrow> rating r = Some 0)"
proof -
  let ?st = "train e flag courses students history"
  from assms(1) obtain ranked where
    fmt: "format_results ?st ranked = Inr recs" by (rule recommend_courses_unfold)
  from format_results_sound [OF fmt assms(2)] obtain cid score course where
    fc: "find_course ?st cid = Inr course" and r: "r = course_info course cid score" by blast
  from find_course_in [OF fc] have
    "course \<in> set (calculate_course_popularity flag history courses)" "course_id course = cid"
    by (simp_all add: courses_df_train)
  from popularity_row [OF this(1)] this(2)
  have "avg_rating course = (if flag then Some 0 else fillna0 (merged_avg_rating history cid))"
    by simp
  then show ?thesis
    by (auto simp: r course_info_def fillna0_def merged_avg_rating_def Let_def
          split: option.splits if_splits)
qed

theorem unrated_course_rating_witness:
  "recommend_courses (train demo_env False demo_courses demo_students demo_history)
      ''S1000'' 5 True None
     = Inr [\<lparr> courseId = ''COURSE1002'', courseName = ''Topology'', courseCode = ''X 101'',
               rec_department = ''Mathematics'', rec_credits = 3,
               rec_difficulty = ''intermediate'', rec_description = ''topics'',
               rating = Some 5, matchScore = 100, rec_keywords = [] \<rparr>,
            \<lparr> courseId = ''COURSE1003'', courseName = ''Drawing'', courseCode = ''X 101'',
               rec_department = ''Arts'', rec_credits = 3,
               rec_difficulty = ''introductory'', rec_description = ''topics'',
               rating = Some 0, matchScore = 21, rec_keywords = [] \<rparr>]
   \<and> course_ratings demo_history ''COURSE1003'' = []
   \<and> rating \<lparr> courseId = ''COURSE1003'', courseName = ''Drawing'', courseCode = ''X 101'',
               rec_department = ''Arts'', rec_credits = 3,
               rec_difficulty = ''introductory'', rec_description = ''topics'',
               rating = Some 0, matchScore = 21, rec_keywords = [] \<rparr> = Some 0"
proof -
  have a: "course_ratings demo_history ''COURSE1003'' = []"
    by (simp add: course_ratings_def demo_history_def mk_hist_def)
  have b: "recommend_courses (train demo_env False demo_courses demo_students demo_history)
      ''S1000'' 5 True None
     = Inr [\<lparr> courseId = ''COURSE1002'', courseName = ''Topology'', courseCode = ''X 101'',
               rec_department = ''Mathematics'', rec_credits = 3,
               rec_difficulty = ''intermediate'', rec_description = ''topics'',
               rating = Some 5, matchScore = 100, rec_keywords = [] \<rparr>,
            \<lparr> courseId = ''COURSE1003'', courseName = ''Drawing'', courseCode = ''X 101'',
               rec_department = ''Arts'', rec_credits = 3,
               rec_difficulty = ''introductory'', rec_description = ''topics'',
               rating = Some 0, matchScore = 21, rec_keywords = [] \<rparr>]"
    using demo_recommend_courses by (simp only: demo_model_def)
  show ?thesis
    using unrated_course_rating [OF b, of "\<lparr> courseId = ''COURSE1003'', courseName = ''Drawing'', courseCode = ''X 101'',
               rec_department = ''Arts'', rec_credits = 3,
               rec_difficulty = ''introductory'', rec_description = ''topics'',
               rating = Some 0, matchScore = 21, rec_keywords = [] \<rparr>"] a
    by (simp only: b simp_thms recommendation.simps)
qed

section \<open>Students without history and unknown students\<close>











lemma keys_update: "fst ` set (AList.update k v al) = insert k (fst ` set al)"
  by (induction al) auto

lemma keys_merge_content:
  "fst ` set (merge_content taken acc recs) \<subseteq> fst ` set acc \<union> fst ` set recs"
proof (induction recs arbitrary: acc)
  case Nil
  then show ?case by (simp add: merge_content_def)
next
  case (Cons p recs)
  obtain c s where p: "p = (c, s)" by (cases p)
  have step: "merge_content taken acc (p # recs)
      = merge_content taken (if c \<notin> taken then AList.update c (s * 0.4) acc else acc) recs"
    by (simp add: merge_content_def p)
  show ?case
    unfolding step using Cons.IH [of "if c \<notin> taken then AList.update c (s * 0.4) acc else acc"]
    by (auto simp: keys_update p split: if_splits)
qed







lemma in_update:
  assumes "p \<in> set (AList.update k v al)"
  shows "p = (k, v) \<or> p \<in> set al"
  using assms by (induction al) (auto split: if_splits)












section \<open>Score fusion\<close>

lemma foldl_invariant:
  assumes "P a" and "\<And>a x. P a \<Longrightarrow> P (f a x)"
  shows "P (foldl f a xs)"
  using assms(1) by (induction xs arbitrary: a) (auto intro: assms(2))

lemma distinct_keys_sorted_desc:
  assumes "distinct (map fst ps)"
  shows "distinct (map fst (sorted_desc ps))"
  using assms by (simp add: sorted_desc_def distinct_map)

lemma distinct_keys_py_slice:
  assumes "distinct (map fst ps)"
  shows "distinct (map fst (py_slice n ps))"
  using assms by (simp add: py_slice_def take_map [symmetric])

lemma distinct_keys_zip:
  assumes "distinct xs"
  shows "distinct (map fst (zip xs ys))"
  using assms by (simp add: map_fst_zip_take)

lemma distinct_keys_neighbour:
  assumes "distinct (map fst scores)"
  shows "distinct (map fst (add_neighbour_scores m sid scores neighbour))"
proof -
  obtain other similarity where n: "neighbour = (other, similarity)" by (cases neighbour)
  show ?thesis
    unfolding add_neighbour_scores_def n prod.case
    by (rule foldl_invariant [where P = "\<lambda>al. distinct (map fst al)"])
       (auto simp: assms Let_def AList.distinct_update)
qed

lemma distinct_keys_collaborative:
  "distinct (map fst (get_collaborative_recommendations st sid n))"
proof -
  have "distinct (map fst (foldl (add_neighbour_scores m sid) [] ns))" for m ns
    by (rule foldl_invariant [where P = "\<lambda>al. distinct (map fst al)"])
       (simp_all add: distinct_keys_neighbour)
  then show ?thesis
    by (simp add: get_collaborative_recommendations_def Let_def
          distinct_keys_py_slice distinct_keys_sorted_desc)
qed

lemma distinct_keys_collaborative_recs:
  "distinct (map fst (collaborative_recs st sid limit))"
  by (simp add: collaborative_recs_def Let_def distinct_keys_collaborative)

lemma distinct_keys_content:
  assumes "get_content_based_recommendations st sid interests dept n = Inr content"
    and "distinct (map course_id (courses_df st))"
  shows "distinct (map fst content)"
proof -
  from assms(1) obtain scores where
    "content = py_slice n (sorted_desc (zip (map course_id (courses_df st)) scores))"
    by (auto simp: get_content_based_recommendations_def Let_def split: sum.splits if_splits)
  with assms(2) show ?thesis
    by (simp add: distinct_keys_py_slice distinct_keys_sorted_desc distinct_keys_zip)
qed

lemma distinct_keys_merge_content:
  assumes "distinct (map fst acc)"
  shows "distinct (map fst (merge_content taken acc recs))"
  unfolding merge_content_def
  by (rule foldl_invariant [where P = "\<lambda>al. distinct (map fst al)"])
     (auto simp: assms AList.distinct_update)

lemma distinct_keys_merge_collaborative:
  assumes "distinct (map fst acc)"
  shows "distinct (map fst (merge_collaborative taken acc recs))"
  unfolding merge_collaborative_def
  by (rule foldl_invariant [where P = "\<lambda>al. distinct (map fst al)"])
     (auto simp: assms AList.distinct_update split: option.splits)

lemma map_of_merge_content:
  assumes "distinct (map fst recs)"
  shows "map_of (merge_content taken acc recs) cid
           = (case map_of recs cid of
                Some s \<Rightarrow> if cid \<in> taken then map_of acc cid else Some (s * 0.4)
              | None \<Rightarrow> map_of acc cid)"
  using assms
proof (induction recs arbitrary: acc)
  case Nil
  then show ?case by (simp add: merge_content_def)
next
  case (Cons p recs)
  obtain c s where p: "p = (c, s)" by (cases p)
  let ?acc = "if c \<notin> taken then AList.update c (s * 0.4) acc else acc"
  have step: "merge_content taken acc (p # recs) = merge_content taken ?acc recs"
    by (simp add: merge_content_def p)
  from Cons.prems have d: "distinct (map fst recs)" and c: "map_of recs c = None"
    by (auto simp: p map_of_eq_None_iff)
  show ?case
    unfolding step Cons.IH [OF d]
    using c by (auto simp: p AList.update_conv' split: option.splits)
qed

lemma map_of_merge_collaborative:
  assumes "distinct (map fst recs)"
  shows "map_of (merge_collaborative taken acc recs) cid
           = (case map_of recs cid of
                Some s \<Rightarrow>
                  if cid \<in> taken then map_of acc cid
                  else Some ((case map_of acc cid of None \<Rightarrow> 0 | Some v \<Rightarrow> v) + s * 0.6)
              | None \<Rightarrow> map_of acc cid)"
  using assms
proof (induction recs arbitrary: acc)
  case Nil
  then show ?case by (simp add: merge_collaborative_def)
next
  case (Cons p recs)
  obtain c s where p: "p = (c, s)" by (cases p)
  let ?acc = "if c \<notin> taken then
                (case map_of acc c of
                   Some v \<Rightarrow> AList.update c (v + s * 0.6) acc
                 | None \<Rightarrow> AList.update c (s * 0.6) acc)
              else acc"
  have step: "merge_collaborative taken acc (p # recs) = merge_collaborative taken ?acc recs"
    by (simp add: merge_collaborative_def p)
  from Cons.prems have d: "distinct (map fst recs)" and c: "map_of recs c = None"
    by (auto simp: p map_of_eq_None_iff)
  show ?case
    unfolding step Cons.IH [OF d]
    using c by (auto simp: p AList.update_conv' split: option.splits)
qed

text \<open>The fused score of a course, from the two candidate lists.\<close>

lemma map_of_all_recs:
  assumes "distinct (map fst content)" and "distinct (map fst collab)"
  shows "map_of (merge_collaborative taken (merge_content taken [] content) collab) cid
           = (if cid \<in> taken \<or> (map_of content cid = None \<and> map_of collab cid = None)
              then None
              else Some ((case map_of content cid of None \<Rightarrow> 0 | Some s \<Rightarrow> s * 0.4)
                       + (case map_of collab cid of None \<Rightarrow> 0 | Some s \<Rightarrow> s * 0.6)))"
  by (simp add: map_of_merge_collaborative [OF assms(2)] map_of_merge_content [OF assms(1)]
        split: option.splits)

lemma demo_content:
  "get_content_based_recommendations demo_model ''S1000'' [''algebra''] ''Mathematics'' 10
     = Inr [(''COURSE1000'', 2), (''COURSE1001'', 2), (''COURSE1002'', 2),
            (''COURSE1003'', 0), (''COURSE1004'', 0)]"
  by (simp add: demo_defs train_defs rec_defs Let_def)

lemma demo_collaborative: "collaborative_recs demo_model ''S1000'' 5 = [(''COURSE1002'', 1)]"
  by (simp add: demo_defs train_defs rec_defs Let_def sqrt_25)

lemma demo_student_info:
  "iloc0 (filter (\<lambda>s. student_id s = ''S1000'') (students_df demo_model))
     = Inr \<lparr> student_id = ''S1000'', major = ''Statistics'',
             student_department = ''Mathematics'', year_of_study = 2, gpa = 3,
             topic_interests = [''algebra''] \<rparr>"
  by (simp add: demo_defs train_def create_course_content_features_def Let_def iloc0_def)

lemma demo_distinct_courses: "distinct (map course_id (courses_df demo_model))"
  by (simp add: demo_defs train_defs Let_def)

text \<open>
  C1: when the course identifiers of the courses table are distinct, the merged score of
  every candidate course of \<^verbatim>\<open>recommend_courses\<close> is 0.4 times its content-based score
  plus 0.6 times its collaborative score, each term present only when the course is in
  the respective list (a taken course is no candidate), and the final score of every
  ranked course is the merged score times 0.6, plus the popularity score times 0.2 times
  0.2, plus the level match times 0.2, where the level match is 1.2 when the level of the
  course divided by 100 is the student's year of study and 1.0 otherwise.
\<close>

theorem fused_and_final_score:
  assumes "distinct (map course_id (courses_df st))"
    and "top_courses st student limit exclude_taken df = Inr ranked"
  shows "\<exists>info content.
      iloc0 (filter (\<lambda>s. student_id s = student) (students_df st)) = Inr info
      \<and> get_content_based_recommendations st student (topic_interests info)
            (student_department info) (limit * 2) = Inr content
      \<and> (\<forall>cid. map_of (merge_collaborative (taken_courses_of st student exclude_taken)
                          (merge_content (taken_courses_of st student exclude_taken) [] content)
                          (collaborative_recs st student limit)) cid
              = (if cid \<in> taken_courses_of st student exclude_taken
                    \<or> (map_of content cid = None
                        \<and> map_of (collaborative_recs st student limit) cid = None)
                 then None
                 else Some ((case map_of content cid of None \<Rightarrow> 0 | Some s \<Rightarrow> s * 0.4)
                          + (case map_of (collaborative_recs st student limit) cid of
                               None \<Rightarrow> 0 | Some s \<Rightarrow> s * 0.6))))
      \<and> (\<forall>(cid, final) \<in> set ranked.
            \<exists>course. find_course st cid = Inr course
              \<and> final
                  = ((case map_of content cid of None \<Rightarrow> 0 | Some s \<Rightarrow> s * 0.4)
                     + (case map_of (collaborative_recs st student limit) cid of
                          None \<Rightarrow> 0 | Some s \<Rightarrow> s * 0.6)) * 0.6
                    + (popularity_score course * 0.2) * 0.2
                    + (if level course div 100 = year_of_study info then 1.2 else 1.0) * 0.2)"
proof -
  let ?taken = "taken_courses_of st student exclude_taken"
  let ?collab = "collaborative_recs st student limit"
  from assms(2) obtain info content filtered where
    "course_similarity_matrix st \<noteq> None"
    and info: "iloc0 (filter (\<lambda>s. student_id s = student) (students_df st)) = Inr info"
    and content: "get_content_based_recommendations st student (topic_interests info)
            (student_department info) (limit * 2) = Inr content"
    and flt: "filter_courses st ?taken (year_of_study info) df
            (merge_collaborative ?taken (merge_content ?taken [] content) ?collab)
            = Inr filtered"
    and ranked: "ranked = py_slice limit (sorted_desc filtered)"
    by (rule top_courses_unfold)
  let ?all = "merge_collaborative ?taken (merge_content ?taken [] content) ?collab"
  let ?fused = "\<lambda>cid. (case map_of content cid of None \<Rightarrow> 0 | Some s \<Rightarrow> s * 0.4)
                     + (case map_of ?collab cid of None \<Rightarrow> 0 | Some s \<Rightarrow> s * 0.6)"
  have dc: "distinct (map fst content)"
    using content assms(1) by (rule distinct_keys_content)
  have dk: "distinct (map fst ?collab)"
    by (rule distinct_keys_collaborative_recs)
  have fused: "map_of ?all cid
      = (if cid \<in> ?taken \<or> (map_of content cid = None \<and> map_of ?collab cid = None)
         then None else Some (?fused cid))" for cid
    using dc dk by (rule map_of_all_recs)
  have final: "\<exists>course. find_course st cid = Inr course
              \<and> final = ?fused cid * 0.6 + (popularity_score course * 0.2) * 0.2
                    + (if level course div 100 = year_of_study info then 1.2 else 1.0) * 0.2"
    if "(cid, final) \<in> set ranked" for cid final
  proof -
    from that ranked have "(cid, final) \<in> set filtered"
      using set_py_slice [of limit "sorted_desc filtered"] by (auto simp: set_sorted_desc)
    from filter_courses_sound [OF flt this] obtain score course where
      mem: "(cid, score) \<in> set ?all" and fc: "find_course st cid = Inr course"
      and fs: "final = final_score course (year_of_study info) score" by blast
    from mem have "map_of ?all cid = Some score"
      by (simp add: distinct_keys_merge_collaborative distinct_keys_merge_content)
    with fused [of cid] have "score = ?fused cid"
      by (simp split: if_splits)
    with fs fc show ?thesis
      by (simp add: final_score_def level_match_def Let_def)
  qed
  from info content fused final show ?thesis by blast
qed

theorem fused_and_final_score_witness:
  "distinct (map course_id (courses_df demo_model))
   \<and> top_courses demo_model ''S1000'' 5 True None
       = Inr [(''COURSE1002'', 553 / 500), (''COURSE1003'', 107 / 500)]
   \<and> get_content_based_recommendations demo_model ''S1000'' [''algebra''] ''Mathematics'' 10
       = Inr [(''COURSE1000'', 2), (''COURSE1001'', 2), (''COURSE1002'', 2),
              (''COURSE1003'', 0), (''COURSE1004'', 0)]
   \<and> collaborative_recs demo_model ''S1000'' 5 = [(''COURSE1002'', 1)]
   \<and> (\<exists>course. find_course demo_model ''COURSE1002'' = Inr course
         \<and> popularity_score course = 13 / 20 \<and> level course = 200
         \<and> (553 / 500 :: real)
              = (2 * 0.4 + 1 * 0.6) * 0.6 + (popularity_score course * 0.2) * 0.2 + 1.2 * 0.2)"
proof -
  from fused_and_final_score [OF demo_distinct_courses demo_top_courses]
  obtain info content where
    i: "iloc0 (filter (\<lambda>s. student_id s = ''S1000'') (students_df demo_model)) = Inr info"
    and c: "get_content_based_recommendations demo_model ''S1000'' (topic_interests info)
              (student_department info) (5 * 2) = Inr content"
    and f: "\<forall>(cid, final) \<in> set [(''COURSE1002'', 553 / 500), (''COURSE1003'', 107 / 500)].
            \<exists>course. find_course demo_model cid = Inr course
              \<and> final
                  = ((case map_of content cid of None \<Rightarrow> 0 | Some s \<Rightarrow> s * 0.4)
                     + (case map_of (collaborative_recs demo_model ''S1000'' 5) cid of
                          None \<Rightarrow> 0 | Some s \<Rightarrow> s * 0.6)) * 0.6
                    + (popularity_score course * 0.2) * 0.2
                    + (if level course div 100 = year_of_study info then 1.2 else 1.0) * 0.2"
    by (elim exE conjE)
  from i have info: "info = \<lparr> student_id = ''S1000'', major = ''Statistics'',
             student_department = ''Mathematics'', year_of_study = 2, gpa = 3,
             topic_interests = [''algebra''] \<rparr>"
    by (simp add: demo_student_info)
  from c have content: "content = [(''COURSE1000'', 2), (''COURSE1001'', 2),
      (''COURSE1002'', 2), (''COURSE1003'', 0), (''COURSE1004'', 0)]"
    by (simp add: info demo_content)
  from f have "\<exists>course. find_course demo_model ''COURSE1002'' = Inr course
              \<and> (553 / 500 :: real)
                  = ((case map_of content ''COURSE1002'' of None \<Rightarrow> 0 | Some s \<Rightarrow> s * 0.4)
                     + (case map_of (collaborative_recs demo_model ''S1000'' 5) ''COURSE1002'' of
                          None \<Rightarrow> 0 | Some s \<Rightarrow> s * 0.6)) * 0.6
                    + (popularity_score course * 0.2) * 0.2
                    + (if level course div 100 = year_of_study info then 1.2 else 1.0) * 0.2"
    by simp
  then have "\<exists>course. find_course demo_model ''COURSE1002'' = Inr course
         \<and> popularity_score course = 13 / 20 \<and> level course = 200
         \<and> (553 / 500 :: real)
              = (2 * 0.4 + 1 * 0.6) * 0.6 + (popularity_score course * 0.2) * 0.2 + 1.2 * 0.2"
    by (simp add: content info demo_collaborative demo_find_course(1))
  with demo_distinct_courses demo_top_courses demo_content demo_collaborative
  show ?thesis by (intro conjI)
qed

section \<open>Match score\<close>

subsection \<open>Non-negative similarities\<close>

lemma dot_self_nonneg: "0 \<le> dot xs xs"
  unfolding dot_def by (induction xs) simp_all

lemma similarity_train:
  "course_similarity_matrix (train e flag courses students history)
     = Some (cosine_similarity
               (map (tfidf e (map content_text courses)) (map content_text courses))
               (map (tfidf e (map content_text courses)) (map content_text courses)))"
  by (simp add: train_def create_course_content_features_def Let_def)

lemma in_slice_sorted:
  assumes "p \<in> set (py_slice n (sorted_desc ps))"
  shows "p \<in> set ps"
  using assms set_py_slice [of n "sorted_desc ps"] by (auto simp: set_sorted_desc)

lemma dot_nonneg:
  assumes "\<forall>v \<in> set xs. 0 \<le> v" and "\<forall>v \<in> set ys. 0 \<le> v"
  shows "0 \<le> dot xs ys"
proof -
  have "(0::real) \<le> v" if "v \<in> set (map2 (*) xs ys)" for v
  proof -
    from that obtain a b where "(a, b) \<in> set (zip xs ys)" "v = a * b" by auto
    then have "a \<in> set xs" "b \<in> set ys" by (auto dest: set_zip_leftD set_zip_rightD)
    with assms \<open>v = a * b\<close> show ?thesis by simp
  qed
  then show ?thesis
    unfolding dot_def by (intro sum_list_nonneg)
qed

lemma l2_norm_nonneg: "0 \<le> l2_norm xs"
  by (simp add: l2_norm_def dot_self_nonneg)

lemma normalize_row_nonneg:
  assumes "\<forall>v \<in> set xs. 0 \<le> v"
  shows "\<forall>v \<in> set (normalize_row xs). 0 \<le> v"
  using assms l2_norm_nonneg [of xs] by (auto simp: normalize_row_def Let_def)

lemma cosine_nonneg:
  assumes "\<forall>v \<in> set xs. 0 \<le> v" and "\<forall>v \<in> set ys. 0 \<le> v"
  shows "0 \<le> dot (normalize_row xs) (normalize_row ys)"
  using assms by (intro dot_nonneg normalize_row_nonneg)

lemma cosine_similarity_nonneg:
  assumes "\<forall>x \<in> set X. \<forall>v \<in> set x. 0 \<le> v" and "\<forall>y \<in> set Y. \<forall>v \<in> set y. 0 \<le> v"
  shows "\<forall>row \<in> set (cosine_similarity X Y). \<forall>v \<in> set row. 0 \<le> v"
  using assms by (auto simp: cosine_similarity_def intro!: cosine_nonneg)

subsection \<open>Content scores\<close>

lemma add_half_nonneg:
  assumes "add_half scores row = Inr scores'"
    and "\<forall>v \<in> set scores. 0 \<le> v" and "\<forall>v \<in> set row. 0 \<le> v"
  shows "\<forall>v \<in> set scores'. 0 \<le> v"
proof (cases "length row = length scores")
  case True
  with assms(1) have s: "scores' = map2 (\<lambda>a b. a + 0.5 * b) scores row"
    by (simp add: add_half_def)
  show ?thesis
  proof
    fix v assume "v \<in> set scores'"
    with s obtain a b where "(a, b) \<in> set (zip scores row)" "v = a + 0.5 * b" by auto
    then have "a \<in> set scores" "b \<in> set row" by (auto dest: set_zip_leftD set_zip_rightD)
    with assms(2,3) \<open>v = a + 0.5 * b\<close> show "0 \<le> v" by simp
  qed
next
  case False
  with assms(1) have one: "length row = 1" and s: "scores' = map (\<lambda>a. a + 0.5 * hd row) scores"
    by (auto simp: add_half_def split: if_splits)
  from one have "hd row \<in> set row" by (cases row) simp_all
  with assms(3) have "0 \<le> hd row" by simp
  with assms(2) show ?thesis by (auto simp: s)
qed

lemma add_taken_similarities_nonneg:
  assumes "add_taken_similarities st cids scores = Inr scores'"
    and "\<forall>v \<in> set scores. 0 \<le> v"
    and "\<forall>sim. course_similarity_matrix st = Some sim
           \<longrightarrow> (\<forall>row \<in> set sim. \<forall>v \<in> set row. 0 \<le> v)"
  shows "\<forall>v \<in> set scores'. 0 \<le> v"
  using assms(1,2)
proof (induction cids arbitrary: scores)
  case Nil
  then show ?case by simp
next
  case (Cons cid rest)
  show ?case
  proof (cases "first_index (\<lambda>c. course_id c = cid) (courses_df st)")
    case None
    with Cons.prems(1) have "add_taken_similarities st rest scores = Inr scores'" by simp
    from Cons.IH [OF this Cons.prems(2)] show ?thesis .
  next
    case (Some idx)
    with Cons.prems(1) obtain sim scores'' where
      sim: "course_similarity_matrix st = Some sim" and idx: "idx < length sim"
      and half: "add_half scores (sim ! idx) = Inr scores''"
      and rest: "add_taken_similarities st rest scores'' = Inr scores'"
      by (auto split: option.splits if_splits sum.splits)
    from idx have "sim ! idx \<in> set sim" by simp
    with assms(3) sim have "\<forall>v \<in> set (sim ! idx). 0 \<le> v" by blast
    from add_half_nonneg [OF half Cons.prems(2) this]
    have "\<forall>v \<in> set scores''. 0 \<le> v" .
    from Cons.IH [OF rest this] show ?thesis .
  qed
qed

lemma content_scores_nonneg:
  assumes "get_content_based_recommendations st sid interests dept n = Inr content"
    and "\<forall>text. \<forall>w \<in> set (course_vectorizer st text). 0 \<le> w"
    and "\<forall>row \<in> set (course_content_matrix st). \<forall>w \<in> set row. 0 \<le> w"
    and "\<forall>sim. course_similarity_matrix st = Some sim
           \<longrightarrow> (\<forall>row \<in> set sim. \<forall>v \<in> set row. 0 \<le> v)"
  shows "\<forall>p \<in> set content. 0 \<le> snd p"
proof -
  let ?q = "course_vectorizer st (query_text interests dept)"
  let ?scores0 = "hd (cosine_similarity [?q] (course_content_matrix st))"
  from assms(1) obtain scores where
    taken: "add_taken_similarities st
              (unique (student_courses_of (course_history_df st) sid)) ?scores0 = Inr scores"
    and content: "content = py_slice n (sorted_desc (zip (map course_id (courses_df st)) scores))"
    by (auto simp: get_content_based_recommendations_def Let_def split: sum.splits if_splits)
  have "\<forall>row \<in> set (cosine_similarity [?q] (course_content_matrix st)). \<forall>v \<in> set row. 0 \<le> v"
    using assms(2,3) by (intro cosine_similarity_nonneg) simp_all
  then have "\<forall>v \<in> set ?scores0. 0 \<le> v"
    by (simp add: cosine_similarity_def)
  from add_taken_similarities_nonneg [OF taken this assms(4)]
  have nn: "\<forall>v \<in> set scores. 0 \<le> v" .
  show ?thesis
  proof
    fix p assume "p \<in> set content"
    with content have "p \<in> set (zip (map course_id (courses_df st)) scores)"
      by (simp add: in_slice_sorted)
    moreover obtain a b where "p = (a, b)" by (cases p)
    ultimately have "snd p \<in> set scores" by (auto dest: set_zip_rightD)
    with nn show "0 \<le> snd p" by simp
  qed
qed

subsection \<open>Collaborative scores\<close>

lemma masked_positive_left:
  "\<forall>v \<in> set (masked (map2 (\<lambda>a b. 0 < a \<and> 0 < b) xs ys) xs). (0::real) \<le> v"
proof
  fix v assume "v \<in> set (masked (map2 (\<lambda>a b. 0 < a \<and> 0 < b) xs ys) xs)"
  then have "(True, v) \<in> set (zip (map2 (\<lambda>a b. 0 < a \<and> 0 < b) xs ys) xs)"
    by (auto simp: masked_def)
  then obtain i where "i < length xs" "i < length ys" "0 < xs ! i \<and> 0 < ys ! i" "v = xs ! i"
    by (auto simp: in_set_zip)
  then show "0 \<le> v" by simp
qed

lemma masked_positive_right:
  "\<forall>v \<in> set (masked (map2 (\<lambda>a b. 0 < a \<and> 0 < b) xs ys) ys). (0::real) \<le> v"
proof
  fix v assume "v \<in> set (masked (map2 (\<lambda>a b. 0 < a \<and> 0 < b) xs ys) ys)"
  then have "(True, v) \<in> set (zip (map2 (\<lambda>a b. 0 < a \<and> 0 < b) xs ys) ys)"
    by (auto simp: masked_def)
  then obtain i where "i < length xs" "i < length ys" "0 < xs ! i \<and> 0 < ys ! i" "v = ys ! i"
    by (auto simp: in_set_zip)
  then show "0 \<le> v" by simp
qed

lemma similar_students_nonneg: "\<forall>p \<in> set (similar_students m sid). 0 \<le> snd p"
  unfolding similar_students_def Let_def
proof (rule foldl_invariant [where P = "\<lambda>al. \<forall>p \<in> set al. 0 \<le> snd p"])
  show "\<forall>p \<in> set []. (0::real) \<le> snd p" by simp
next
  fix al :: "(string \<times> real) list" and other
  assume inv: "\<forall>p \<in> set al. 0 \<le> snd p"
  let ?msk = "map2 (\<lambda>a b. 0 < a \<and> 0 < b) (loc m sid) (loc m other)"
  let ?sim = "hd (hd (cosine_similarity [masked ?msk (loc m sid)] [masked ?msk (loc m other)]))"
  have "0 \<le> ?sim"
    using cosine_nonneg [OF masked_positive_left masked_positive_right,
        of "loc m sid" "loc m other"]
    by (simp add: cosine_similarity_def)
  with inv have "\<forall>p \<in> set (AList.update other ?sim al). 0 \<le> snd p"
    by (auto dest!: in_update)
  with inv show "\<forall>p \<in> set (if other \<noteq> sid
         then if 2 \<le> length (filter id ?msk)
              then if length (filter id ?msk) = 0 then al else AList.update other ?sim al
              else al
         else al). 0 \<le> snd p"
    by simp
qed

lemma add_neighbour_scores_nonneg:
  assumes "\<forall>p \<in> set scores. 0 \<le> snd p" and "0 \<le> snd neighbour"
  shows "\<forall>p \<in> set (add_neighbour_scores m sid scores neighbour). 0 \<le> snd p"
proof -
  obtain other similarity where n: "neighbour = (other, similarity)" by (cases neighbour)
  with assms(2) have sim: "0 \<le> similarity" by simp
  show ?thesis
    unfolding add_neighbour_scores_def n prod.case Let_def
  proof (rule foldl_invariant [where P = "\<lambda>al. \<forall>p \<in> set al. 0 \<le> snd p"])
    show "\<forall>p \<in> set scores. 0 \<le> snd p" by (rule assms(1))
  next
    fix al :: "(string \<times> real) list" and course
    assume inv: "\<forall>p \<in> set al. 0 \<le> snd p"
    have old: "0 \<le> (case map_of al course of None \<Rightarrow> 0 | Some v \<Rightarrow> v)"
      using inv by (auto split: option.splits dest!: map_of_SomeD)
    show "\<forall>p \<in> set (if 3 < m_cell m other course \<and> m_cell m sid course = 0
            then AList.update course
                   ((case map_of al course of None \<Rightarrow> 0 | Some v \<Rightarrow> v)
                    + similarity * (m_cell m other course / 5)) al
            else al). 0 \<le> snd p"
    proof
      fix p
      assume "p \<in> set (if 3 < m_cell m other course \<and> m_cell m sid course = 0
            then AList.update course
                   ((case map_of al course of None \<Rightarrow> 0 | Some v \<Rightarrow> v)
                    + similarity * (m_cell m other course / 5)) al
            else al)"
      then consider "p \<in> set al"
        | "3 < m_cell m other course"
          "p = (course, (case map_of al course of None \<Rightarrow> 0 | Some v \<Rightarrow> v)
                    + similarity * (m_cell m other course / 5))"
        by (auto split: if_splits dest!: in_update)
      then show "0 \<le> snd p"
      proof cases
        case 1
        with inv show ?thesis by simp
      next
        case 2
        then have "0 \<le> similarity * (m_cell m other course / 5)"
          using sim by simp
        with old 2(2) show ?thesis by simp
      qed
    qed
  qed
qed

lemma collaborative_nonneg:
  "\<forall>p \<in> set (get_collaborative_recommendations st sid n). 0 \<le> snd p"
proof (cases "sid \<in> set (m_index (student_course_matrix st))")
  case False
  then show ?thesis by (simp add: get_collaborative_recommendations_def)
next
  case True
  let ?m = "student_course_matrix st"
  let ?ns = "py_slice 10 (sorted_desc (similar_students ?m sid))"
  have ns: "\<forall>p \<in> set ?ns. 0 \<le> snd p"
    using similar_students_nonneg [of ?m sid] by (auto dest!: in_slice_sorted)
  have "\<forall>p \<in> set (foldl (add_neighbour_scores ?m sid) acc ns). 0 \<le> snd p"
    if "\<forall>p \<in> set acc. 0 \<le> snd p" "\<forall>p \<in> set ns. 0 \<le> snd p" for acc ns
    using that
  proof (induction ns arbitrary: acc)
    case Nil
    then show ?case by simp
  next
    case (Cons x ns)
    from Cons.prems have "\<forall>p \<in> set (add_neighbour_scores ?m sid acc x). 0 \<le> snd p"
      by (intro add_neighbour_scores_nonneg) simp_all
    from Cons.IH [OF this] Cons.prems(2) show ?case by simp
  qed
  from this [of "[]" ?ns] ns
  have "\<forall>p \<in> set (foldl (add_neighbour_scores ?m sid) [] ?ns). 0 \<le> snd p" by simp
  then show ?thesis
    using True by (auto simp: get_collaborative_recommendations_def Let_def dest!: in_slice_sorted)
qed

lemma collaborative_recs_nonneg:
  "\<forall>p \<in> set (collaborative_recs st sid limit). 0 \<le> snd p"
  using collaborative_nonneg [of st sid "limit * 2"]
  by (simp add: collaborative_recs_def Let_def)

subsection \<open>Fused scores\<close>

lemma merge_content_nonneg:
  assumes "\<forall>p \<in> set acc. 0 \<le> snd p" and "\<forall>p \<in> set recs. 0 \<le> snd p"
  shows "\<forall>p \<in> set (merge_content taken acc recs). 0 \<le> snd p"
  using assms
proof (induction recs arbitrary: acc)
  case Nil
  then show ?case by (simp add: merge_content_def)
next
  case (Cons q recs)
  obtain c s where q: "q = (c, s)" by (cases q)
  let ?acc = "if c \<notin> taken then AList.update c (s * 0.4) acc else acc"
  have step: "merge_content taken acc (q # recs) = merge_content taken ?acc recs"
    by (simp add: merge_content_def q)
  from Cons.prems(2) have "0 \<le> s" by (simp add: q)
  with Cons.prems(1) have "\<forall>p \<in> set ?acc. 0 \<le> snd p"
    by (auto dest!: in_update)
  moreover from Cons.prems(2) have "\<forall>p \<in> set recs. 0 \<le> snd p" by simp
  ultimately show ?case unfolding step by (rule Cons.IH)
qed

lemma merge_collaborative_nonneg:
  assumes "\<forall>p \<in> set acc. 0 \<le> snd p" and "\<forall>p \<in> set recs. 0 \<le> snd p"
  shows "\<forall>p \<in> set (merge_collaborative taken acc recs). 0 \<le> snd p"
  using assms
proof (induction recs arbitrary: acc)
  case Nil
  then show ?case by (simp add: merge_collaborative_def)
next
  case (Cons q recs)
  obtain c s where q: "q = (c, s)" by (cases q)
  let ?acc = "if c \<notin> taken then
                (case map_of acc c of
                   Some v \<Rightarrow> AList.update c (v + s * 0.6) acc
                 | None \<Rightarrow> AList.update c (s * 0.6) acc)
              else acc"
  have step: "merge_collaborative taken acc (q # recs) = merge_collaborative taken ?acc recs"
    by (simp add: merge_collaborative_def q)
  from Cons.prems(2) have s: "0 \<le> s" by (simp add: q)
  have "\<forall>p \<in> set ?acc. 0 \<le> snd p"
  proof (cases "map_of acc c")
    case None
    with Cons.prems(1) s show ?thesis by (auto dest!: in_update)
  next
    case (Some v)
    then have "(c, v) \<in> set acc" by (rule map_of_SomeD)
    with Cons.prems(1) have "0 \<le> v" by auto
    with Cons.prems(1) s Some show ?thesis by (auto dest!: in_update)
  qed
  moreover from Cons.prems(2) have "\<forall>p \<in> set recs. 0 \<le> snd p" by simp
  ultimately show ?case unfolding step by (rule Cons.IH)
qed

subsection \<open>Popularity\<close>

lemma mean_nonneg:
  assumes "\<forall>x \<in> set xs. 0 \<le> x"
  shows "0 \<le> mean xs"
  using assms by (simp add: mean_def sum_list_nonneg)

lemma course_ratings_nonneg:
  assumes "\<forall>r \<in> set h. \<forall>x. student_rating r = Some x \<longrightarrow> 0 \<le> x"
  shows "\<forall>x \<in> set (course_ratings h c). 0 \<le> x"
  using assms by (auto simp: course_ratings_def split: option.splits)

lemma popularity_nonneg:
  assumes "\<forall>r \<in> set h. \<forall>x. student_rating r = Some x \<longrightarrow> 0 \<le> x"
    and "course \<in> set (calculate_course_popularity flag h courses)"
  shows "0 \<le> popularity_score course"
proof -
  let ?emax = "max (Max (set (map (\<lambda>c. enrollments h (course_id c)) courses))) 1"
  let ?r = "\<lambda>c. if flag then Some 0 else fillna0 (merged_avg_rating h (course_id c))"
  let ?pop = "\<lambda>c. 0.7 * enrollments h (course_id c) / ?emax
              + 0.3 * (case ?r c of None \<Rightarrow> 0 | Some x \<Rightarrow> x) / rating_max"
  from assms(2) have "course \<in> (\<lambda>c. course_row.extend c
        \<lparr> enrollment_count = enrollments h (course_id c), avg_rating = ?r c,
          popularity_score = ?pop c \<rparr>) ` set courses"
    unfolding calculate_course_popularity_def Let_def set_map .
  then obtain c where "course = course_row.extend c
        \<lparr> enrollment_count = enrollments h (course_id c), avg_rating = ?r c,
          popularity_score = ?pop c \<rparr>" ..
  then have pop: "popularity_score course = ?pop c"
    by (simp add: course_row.extend_def)
  have e: "0 \<le> enrollments h (course_id c)" by (simp add: enrollments_def)
  have m: "0 < ?emax" by simp
  have "0 \<le> mean (course_ratings h (course_id c))"
    using course_ratings_nonneg [OF assms(1)] by (rule mean_nonneg)
  then have r: "0 \<le> (case ?r c of None \<Rightarrow> 0 | Some x \<Rightarrow> x)"
    by (simp add: fillna0_def merged_avg_rating_def Let_def)
  have "0 \<le> 0.7 * enrollments h (course_id c) / ?emax"
    using e m by (intro divide_nonneg_pos mult_nonneg_nonneg) simp_all
  moreover have "0 \<le> 0.3 * (case ?r c of None \<Rightarrow> 0 | Some x \<Rightarrow> x) / rating_max"
    using r by (simp add: rating_max_def)
  ultimately show ?thesis unfolding pop by (rule add_nonneg_nonneg)
qed

subsection \<open>Final score and match score\<close>

lemma py_round_nonneg:
  assumes "0 \<le> x"
  shows "0 \<le> py_round x"
proof -
  from assms have "0 \<le> \<lfloor>x\<rfloor>" by simp
  then show ?thesis by (simp add: py_round_def Let_def)
qed

lemma final_score_nonneg:
  assumes "0 \<le> score" and "0 \<le> popularity_score course"
  shows "0 \<le> final_score course y score"
  using assms by (simp add: final_score_def level_match_def Let_def)

lemma trained_nonneg:
  assumes "\<forall>corpus text. \<forall>w \<in> set (tfidf e corpus text). 0 \<le> w"
  shows "\<forall>text. \<forall>w \<in> set (course_vectorizer (train e flag courses students history) text).
           0 \<le> w"
    and "\<forall>row \<in> set (course_content_matrix (train e flag courses students history)).
           \<forall>w \<in> set row. 0 \<le> w"
    and "\<forall>sim. course_similarity_matrix (train e flag courses students history) = Some sim
           \<longrightarrow> (\<forall>row \<in> set sim. \<forall>v \<in> set row. 0 \<le> v)"
proof -
  let ?texts = "map content_text courses"
  let ?M = "map (tfidf e ?texts) ?texts"
  show "\<forall>text. \<forall>w \<in> set (course_vectorizer (train e flag courses students history) text).
           0 \<le> w"
    using assms by (simp add: train_def create_course_content_features_def Let_def)
  have rows: "\<forall>row \<in> set ?M. \<forall>w \<in> set row. 0 \<le> w"
    using assms by auto
  then show "\<forall>row \<in> set (course_content_matrix (train e flag courses students history)).
           \<forall>w \<in> set row. 0 \<le> w"
    by (simp add: train_def create_course_content_features_def Let_def)
  from cosine_similarity_nonneg [OF rows rows]
  show "\<forall>sim. course_similarity_matrix (train e flag courses students history) = Some sim
           \<longrightarrow> (\<forall>row \<in> set sim. \<forall>v \<in> set row. 0 \<le> v)"
    by (simp add: similarity_train)
qed

text \<open>
  C5, as stated, fails: nothing keeps the match score from falling below 0. On the
  example tables with one rating of -500 in the history, the course with that rating is
  returned with the match score -47.
\<close>

theorem match_score_range_counterexample:
  "recommend_courses negative_model ''S1000'' 5 True None
     = Inr [\<lparr> courseId = ''COURSE1003'', courseName = ''Drawing'', courseCode = ''X 101'',
               rec_department = ''Arts'', rec_credits = 3,
               rec_difficulty = ''introductory'', rec_description = ''topics'',
               rating = Some 0, matchScore = 21, rec_keywords = [] \<rparr>,
            \<lparr> courseId = ''COURSE1002'', courseName = ''Topology'', courseCode = ''X 101'',
               rec_department = ''Mathematics'', rec_credits = 3,
               rec_difficulty = ''intermediate'', rec_description = ''topics'',
               rating = Some (- 500), matchScore = - 47, rec_keywords = [] \<rparr>]"
  by (simp add: demo_defs negative_history_def negative_model_def train_defs Let_def rec_defs
        sqrt_25)

text \<open>
  C5, amended: the match score of every returned recommendation is
  \<^verbatim>\<open>min(round(final_score * 100), 100)\<close> for the final score of its course, an integer
  that is at most 100; it is at least 0 when the TF-IDF weights are not negative (as the
  weights of a TF-IDF vectorizer are) and no rating of the history is negative.
\<close>

theorem match_score_range:
  assumes "recommend_courses (train e flag courses students history)
             student limit exclude_taken df = Inr recs"
    and "r \<in> set recs"
  shows "matchScore r \<le> 100
       \<and> (\<exists>ranked final.
            top_courses (train e flag courses students history)
              student limit exclude_taken df = Inr ranked
            \<and> (courseId r, final) \<in> set ranked
            \<and> matchScore r = min (py_round (final * 100)) 100)
       \<and> ((\<forall>corpus text. \<forall>w \<in> set (tfidf e corpus text). 0 \<le> w)
            \<and> (\<forall>h \<in> set history. \<forall>x. student_rating h = Some x \<longrightarrow> 0 \<le> x)
           \<longrightarrow> 0 \<le> matchScore r)"
proof -
  let ?st = "train e flag courses students history"
  let ?taken = "taken_courses_of ?st student exclude_taken"
  let ?collab = "collaborative_recs ?st student limit"
  from assms(1) obtain ranked where
    top: "top_courses ?st student limit exclude_taken df = Inr ranked"
    and fmt: "format_results ?st ranked = Inr recs" by (rule recommend_courses_unfold)
  from format_results_sound [OF fmt assms(2)] obtain cid final course where
    in_ranked: "(cid, final) \<in> set ranked" and r: "r = course_info course cid final" by blast
  have ms: "matchScore r = min (py_round (final * 100)) 100" and id: "courseId r = cid"
    by (simp_all add: r course_info_def)
  have upper: "matchScore r \<le> 100" by (simp add: ms)
  have "0 \<le> matchScore r"
    if weights: "\<forall>corpus text. \<forall>w \<in> set (tfidf e corpus text). 0 \<le> w"
      and ratings: "\<forall>h \<in> set history. \<forall>x. student_rating h = Some x \<longrightarrow> 0 \<le> x"
  proof -
    from top obtain info content filtered where
      "course_similarity_matrix ?st \<noteq> None"
      "iloc0 (filter (\<lambda>s. student_id s = student) (students_df ?st)) = Inr info"
      and content: "get_content_based_recommendations ?st student (topic_interests info)
            (student_department info) (limit * 2) = Inr content"
      and flt: "filter_courses ?st ?taken (year_of_study info) df
            (merge_collaborative ?taken (merge_content ?taken [] content) ?collab)
            = Inr filtered"
      and ranked: "ranked = py_slice limit (sorted_desc filtered)"
      by (rule top_courses_unfold)
    from in_ranked ranked have "(cid, final) \<in> set filtered"
      by (simp add: in_slice_sorted)
    from filter_courses_sound [OF flt this] obtain score course' where
      mem: "(cid, score) \<in> set (merge_collaborative ?taken (merge_content ?taken [] content)
                                  ?collab)"
      and fc: "find_course ?st cid = Inr course'"
      and fs: "final = final_score course' (year_of_study info) score" by blast
    have "\<forall>p \<in> set content. 0 \<le> snd p"
      using content trained_nonneg [OF weights] by (rule content_scores_nonneg)
    then have "\<forall>p \<in> set (merge_content ?taken [] content). 0 \<le> snd p"
      by (intro merge_content_nonneg) simp_all
    then have "\<forall>p \<in> set (merge_collaborative ?taken (merge_content ?taken [] content)
                             ?collab). 0 \<le> snd p"
      using collaborative_recs_nonneg by (rule merge_collaborative_nonneg)
    with mem have score: "0 \<le> score" by auto
    from find_course_in [OF fc]
    have "course' \<in> set (calculate_course_popularity flag history courses)"
      by (simp add: courses_df_train)
    with ratings have "0 \<le> popularity_score course'" by (rule popularity_nonneg)
    with score have "0 \<le> final" unfolding fs by (rule final_score_nonneg)
    then have "0 \<le> py_round (final * 100)" by (intro py_round_nonneg) simp
    then show ?thesis by (simp add: ms)
  qed
  with upper top in_ranked ms id show ?thesis by blast
qed

theorem match_score_range_witness:
  "(\<forall>corpus text. set (tfidf demo_env corpus text) \<subseteq> {w. 0 \<le> w})
   \<and> list_all (\<lambda>h. case student_rating h of None \<Rightarrow> True | Some x \<Rightarrow> 0 \<le> x) demo_history
   \<and> top_courses (train demo_env False demo_courses demo_students demo_history)
        ''S1000'' 5 True None
       = Inr [(''COURSE1002'', 553 / 500), (''COURSE1003'', 107 / 500)]
   \<and> map matchScore
        (projr (recommend_courses (train demo_env False demo_courses demo_students demo_history)
                  ''S1000'' 5 True None)) = [100, 21]
   \<and> min (py_round (553 / 500 * 100)) 100 = 100
   \<and> min (py_round (107 / 500 * 100)) 100 = 21
   \<and> (0::int) \<le> 21 \<and> (21::int) \<le> 100"
proof -
  let ?r = "\<lparr> courseId = ''COURSE1003'', courseName = ''Drawing'', courseCode = ''X 101'',
               rec_department = ''Arts'', rec_credits = 3,
               rec_difficulty = ''introductory'', rec_description = ''topics'',
               rating = Some 0, matchScore = 21, rec_keywords = [] \<rparr>"
  have w: "\<forall>corpus text. \<forall>w \<in> set (tfidf demo_env corpus text). 0 \<le> w"
    by (simp add: demo_env_def)
  have rt: "\<forall>h \<in> set demo_history. \<forall>x. student_rating h = Some x \<longrightarrow> 0 \<le> x"
    by (simp add: demo_history_def mk_hist_def)
  have rec: "recommend_courses (train demo_env False demo_courses demo_students demo_history)
      ''S1000'' 5 True None
     = Inr [\<lparr> courseId = ''COURSE1002'', courseName = ''Topology'', courseCode = ''X 101'',
               rec_department = ''Mathematics'', rec_credits = 3,
               rec_difficulty = ''intermediate'', rec_description = ''topics'',
               rating = Some 5, matchScore = 100, rec_keywords = [] \<rparr>, ?r]"
    using demo_recommend_courses by (simp only: demo_model_def)
  have top: "top_courses (train demo_env False demo_courses demo_students demo_history)
        ''S1000'' 5 True None
       = Inr [(''COURSE1002'', 553 / 500), (''COURSE1003'', 107 / 500)]"
    using demo_top_courses by (simp only: demo_model_def)
  have mem: "?r \<in> set [\<lparr> courseId = ''COURSE1002'', courseName = ''Topology'', courseCode = ''X 101'',
               rec_department = ''Mathematics'', rec_credits = 3,
               rec_difficulty = ''intermediate'', rec_description = ''topics'',
               rating = Some 5, matchScore = 100, rec_keywords = [] \<rparr>, ?r]"
    by simp
  note m = match_score_range [OF rec mem]
  have range: "matchScore ?r \<le> 100"
    by (rule m [THEN conjunct1])
  have "0 \<le> matchScore ?r"
    using m [THEN conjunct2, THEN conjunct2] conjI [OF w rt] by (rule mp)
  with range have bounds: "(0::int) \<le> 21 \<and> (21::int) \<le> 100" by simp
  have h1: "\<forall>corpus text. set (tfidf demo_env corpus text) \<subseteq> {w. 0 \<le> w}"
    using w by auto
  have h2: "list_all (\<lambda>h. case student_rating h of None \<Rightarrow> True | Some x \<Rightarrow> 0 \<le> x)
              demo_history"
    by (simp add: demo_history_def mk_hist_def)
  have scores: "map matchScore
        (projr (recommend_courses (train demo_env False demo_courses demo_students demo_history)
                  ''S1000'' 5 True None)) = [100, 21]"
    by (simp add: rec)
  have r1: "min (py_round (553 / 500 * 100)) 100 = 100"
    by (simp add: py_round_def)
  have r2: "min (py_round (107 / 500 * 100)) 100 = 21"
    by (simp add: py_round_def)
  show ?thesis
    by (rule conjI [OF h1 conjI [OF h2 conjI [OF top conjI [OF scores
          conjI [OF r1 conjI [OF r2 bounds]]]]]])
qed

end
